theory Spec2Isabelle
  imports Main
begin

section \<open>Python strings: \<open>str\<close> of an integer, \<open>split\<close> and \<open>join\<close>\<close>

text \<open>
  The plugins exchange pipe-delimited text frames and build the tile map as a
  comma-separated run-length string. The three string primitives of Python they rely on
  are modelled here: \<open>str(i)\<close> for an \<open>int\<close>, \<open>sep.join(parts)\<close> and
  \<open>s.split(sep)\<close> for a one-character separator.
\<close>

datatype py_error = IndexError | KeyError

definition digit_char :: "nat \<Rightarrow> char" where
  "digit_char d = char_of (48 + d)"

definition digit_val :: "char \<Rightarrow> nat" where
  "digit_val c = of_char c - 48"

definition is_digit :: "char \<Rightarrow> bool" where
  "is_digit c = (48 \<le> (of_char c :: nat) \<and> (of_char c :: nat) \<le> 57)"

fun str_nat :: "nat \<Rightarrow> string" where
  "str_nat n = (if n < 10 then [digit_char n] else str_nat (n div 10) @ [digit_char (n mod 10)])"

declare str_nat.simps [simp del]

definition str_int :: "int \<Rightarrow> string" where
  "str_int i = (if i < 0 then CHR ''-'' # str_nat (nat (- i)) else str_nat (nat i))"

fun join :: "string \<Rightarrow> string list \<Rightarrow> string" where
  "join sep [] = []"
| "join sep [p] = p"
| "join sep (p # q # ps) = p @ sep @ join sep (q # ps)"

fun split_on :: "char \<Rightarrow> string \<Rightarrow> string list" where
  "split_on c [] = [[]]"
| "split_on c (x # xs) =
     (if x = c then [] # split_on c xs
      else (case split_on c xs of p # ps \<Rightarrow> (x # p) # ps | [] \<Rightarrow> [[x]]))"

section \<open>The run-length encoder of the tile map\<close>

text \<open>
  \<open>rle_encode(grid, width, height)\<close> of Zombies.py walks the grid row by row with the
  local variables \<open>parts\<close>, \<open>current_id\<close> (initially \<open>None\<close>) and \<open>count\<close>. A run is
  written \<open>f"{count}x{current_id}"\<close> when \<open>count > 1\<close> and \<open>str(current_id)\<close> otherwise.
  Reading \<open>grid[y][x]\<close> out of range raises \<open>IndexError\<close>.
\<close>

definition fmt_run :: "nat \<Rightarrow> int \<Rightarrow> string" where
  "fmt_run count current_id =
     (if count > 1 then str_nat count @ ''x'' @ str_int current_id else str_int current_id)"

type_synonym rle_state = "string list \<times> int option \<times> nat"

fun rle_step :: "rle_state \<Rightarrow> int \<Rightarrow> rle_state" where
  "rle_step (parts, None, count) block_id = (parts, Some block_id, 1)"
| "rle_step (parts, Some current_id, count) block_id =
     (if block_id = current_id then (parts, Some current_id, count + 1)
      else (parts @ [fmt_run count current_id], Some block_id, 1))"

fun rle_finish :: "rle_state \<Rightarrow> string list" where
  "rle_finish (parts, None, count) = parts"
| "rle_finish (parts, Some current_id, count) = parts @ [fmt_run count current_id]"

definition grid_get :: "int list list \<Rightarrow> nat \<Rightarrow> nat \<Rightarrow> py_error + int" where
  "grid_get grid y x =
     (if y < length grid \<and> x < length (grid ! y) then Inr (grid ! y ! x) else Inl IndexError)"

fun rle_loop :: "int list list \<Rightarrow> (nat \<times> nat) list \<Rightarrow> rle_state \<Rightarrow> py_error + rle_state" where
  "rle_loop grid [] st = Inr st"
| "rle_loop grid ((y, x) # rest) st =
     (case grid_get grid y x of
        Inl e \<Rightarrow> Inl e
      | Inr block_id \<Rightarrow> rle_loop grid rest (rle_step st block_id))"

definition rle_encode :: "int list list \<Rightarrow> nat \<Rightarrow> nat \<Rightarrow> py_error + string" where
  "rle_encode grid width height =
     (case rle_loop grid (List.product [0..<height] [0..<width]) ([], None, 0) of
        Inl e \<Rightarrow> Inl e
      | Inr st \<Rightarrow> Inr (join '','' (rle_finish st)))"

text \<open>
  FreeForAll.py flattens the grid first and starts from its first cell; Squid\_Game.py
  takes the dimensions from the grid itself (\<open>len(grid[0])\<close>, \<open>len(grid)\<close>).
\<close>

fun ffa_step :: "string list \<times> int \<times> nat \<Rightarrow> int \<Rightarrow> string list \<times> int \<times> nat" where
  "ffa_step (parts, current_id, count) block_id =
     (if block_id = current_id then (parts, current_id, count + 1)
      else (parts @ [fmt_run count current_id], block_id, 1))"

definition rle_encode_ffa :: "int list list \<Rightarrow> nat \<Rightarrow> nat \<Rightarrow> string" where
  "rle_encode_ffa grid width height =
     (case concat grid of
        [] \<Rightarrow> []
      | first # rest \<Rightarrow>
          (case foldl ffa_step ([], first, 1) rest of
             (parts, current_id, count) \<Rightarrow> join '','' (parts @ [fmt_run count current_id])))"

definition rle_encode_squid :: "int list list \<Rightarrow> py_error + string" where
  "rle_encode_squid grid =
     (case grid of
        [] \<Rightarrow> Inl IndexError
      | row0 # _ \<Rightarrow> rle_encode grid (length row0) (length grid))"

text \<open>
  The decoder is the reader of the format on the client side: split at commas, read
  \<open>NxV\<close> as \<open>N\<close> copies of \<open>V\<close> and a bare \<open>V\<close> as one copy.
\<close>

definition parse_nat :: "string \<Rightarrow> nat" where
  "parse_nat s = foldl (\<lambda>a c. 10 * a + digit_val c) 0 s"

definition parse_int :: "string \<Rightarrow> int" where
  "parse_int s =
     (case s of
        [] \<Rightarrow> 0
      | c # r \<Rightarrow> if c = CHR ''-'' then - int (parse_nat r) else int (parse_nat s))"

definition run_count :: "string \<Rightarrow> nat" where
  "run_count p =
     (if CHR ''x'' \<in> set p then parse_nat (takeWhile (\<lambda>c. c \<noteq> CHR ''x'') p) else 1)"

definition run_value :: "string \<Rightarrow> int" where
  "run_value p =
     (if CHR ''x'' \<in> set p then parse_int (tl (dropWhile (\<lambda>c. c \<noteq> CHR ''x'') p))
      else parse_int p)"

definition is_run :: "string \<Rightarrow> bool" where
  "is_run p = (1 \<le> run_count p \<and> p = fmt_run (run_count p) (run_value p))"

definition rle_decode :: "string \<Rightarrow> int list" where
  "rle_decode s =
     (if s = [] then []
      else concat (map (\<lambda>p. replicate (run_count p) (run_value p)) (split_on CHR '','' s)))"

subsection \<open>Decimal numerals read back\<close>

lemma digit_val_char: "d < 10 \<Longrightarrow> digit_val (digit_char d) = d"
  by (simp add: digit_val_def digit_char_def)

lemma is_digit_char: "d < 10 \<Longrightarrow> is_digit (digit_char d)"
  by (simp add: is_digit_def digit_char_def)

lemma parse_nat_snoc: "parse_nat (s @ [c]) = 10 * parse_nat s + digit_val c"
  by (simp add: parse_nat_def)

lemma parse_str_nat: "parse_nat (str_nat n) = n"
proof (induction n rule: str_nat.induct)
  case (1 n)
  show ?case
  proof (cases "n < 10")
    case True
    then show ?thesis
      by (simp add: str_nat.simps[of n] parse_nat_def digit_val_char)
  next
    case False
    then have "parse_nat (str_nat n) =
        10 * parse_nat (str_nat (n div 10)) + digit_val (digit_char (n mod 10))"
      by (simp add: str_nat.simps[of n] parse_nat_snoc)
    with 1 False show ?thesis
      by (simp add: digit_val_char)
  qed
qed

lemma str_nat_digits: "c \<in> set (str_nat n) \<Longrightarrow> is_digit c"
proof (induction n rule: str_nat.induct)
  case (1 n)
  then show ?case
    by (cases "n < 10") (auto simp: str_nat.simps[of n] is_digit_char)
qed

lemma str_nat_nonempty: "str_nat n \<noteq> []"
  by (simp add: str_nat.simps[of n])

lemma not_digit_x: "\<not> is_digit CHR ''x''"
  by (simp add: is_digit_def)

lemma not_digit_comma: "\<not> is_digit CHR '',''"
  by (simp add: is_digit_def)

lemma not_digit_minus: "\<not> is_digit CHR ''-''"
  by (simp add: is_digit_def)

lemma str_nat_no_x: "CHR ''x'' \<notin> set (str_nat n)"
  using str_nat_digits not_digit_x by auto

lemma str_nat_no_comma: "CHR '','' \<notin> set (str_nat n)"
  using str_nat_digits not_digit_comma by auto

lemma str_nat_hd_not_minus: "hd (str_nat n) \<noteq> CHR ''-''"
proof -
  have "hd (str_nat n) \<in> set (str_nat n)"
    by (simp add: str_nat_nonempty)
  then have "is_digit (hd (str_nat n))"
    by (rule str_nat_digits)
  then show ?thesis
    using not_digit_minus by auto
qed

lemma str_int_no_x: "CHR ''x'' \<notin> set (str_int i)"
  by (simp add: str_int_def str_nat_no_x)

lemma str_int_no_comma: "CHR '','' \<notin> set (str_int i)"
  by (simp add: str_int_def str_nat_no_comma)

lemma str_int_nonempty: "str_int i \<noteq> []"
  by (simp add: str_int_def str_nat_nonempty)

lemma parse_str_int: "parse_int (str_int i) = i"
proof (cases "i < 0")
  case True
  then show ?thesis
    by (simp add: str_int_def parse_int_def parse_str_nat)
next
  case False
  obtain c r where cr: "str_nat (nat i) = c # r"
    using str_nat_nonempty by (cases "str_nat (nat i)") auto
  have "c \<noteq> CHR ''-''"
    using str_nat_hd_not_minus[of "nat i"] cr by simp
  moreover have "parse_nat (c # r) = nat i"
    using parse_str_nat[of "nat i"] cr by simp
  ultimately show ?thesis
    using False cr by (simp add: str_int_def parse_int_def)
qed

subsection \<open>Splitting a joined list\<close>

lemma split_on_nonempty: "split_on c s \<noteq> []"
  by (induction s) (auto split: list.splits)

lemma split_on_no_sep: "c \<notin> set p \<Longrightarrow> split_on c p = [p]"
  by (induction p) auto

lemma split_on_append: "c \<notin> set p \<Longrightarrow> split_on c (p @ c # s) = p # split_on c s"
  by (induction p) auto

lemma split_join:
  "parts \<noteq> [] \<Longrightarrow> \<forall>p\<in>set parts. c \<notin> set p \<Longrightarrow> split_on c (join [c] parts) = parts"
proof (induction "[c]" parts rule: join.induct)
  case 1
  then show ?case by simp
next
  case (2 p)
  then show ?case by (simp add: split_on_no_sep)
next
  case (3 p q ps)
  then show ?case by (simp add: split_on_append)
qed

lemma join_nonempty: "parts \<noteq> [] \<Longrightarrow> \<forall>p\<in>set parts. p \<noteq> [] \<Longrightarrow> join sep parts \<noteq> []"
  by (induction sep parts rule: join.induct) auto

subsection \<open>One run, written and read back\<close>

lemma fmt_run_no_comma: "CHR '','' \<notin> set (fmt_run n v)"
  by (simp add: fmt_run_def str_int_no_comma str_nat_no_comma)

lemma fmt_run_nonempty: "fmt_run n v \<noteq> []"
  by (simp add: fmt_run_def str_int_nonempty str_nat_nonempty)

lemma takeWhile_x: "CHR ''x'' \<notin> set a \<Longrightarrow> takeWhile (\<lambda>c. c \<noteq> CHR ''x'') (a @ CHR ''x'' # b) = a"
  by (induction a) auto

lemma dropWhile_x: "CHR ''x'' \<notin> set a \<Longrightarrow> dropWhile (\<lambda>c. c \<noteq> CHR ''x'') (a @ CHR ''x'' # b) = CHR ''x'' # b"
  by (induction a) auto

lemma run_count_fmt: "1 \<le> n \<Longrightarrow> run_count (fmt_run n v) = n"
  by (auto simp: run_count_def fmt_run_def str_int_no_x str_nat_no_x takeWhile_x parse_str_nat)

lemma run_value_fmt: "run_value (fmt_run n v) = v"
  by (auto simp: run_value_def fmt_run_def str_int_no_x str_nat_no_x dropWhile_x parse_str_int)

lemma is_run_fmt: "1 \<le> n \<Longrightarrow> is_run (fmt_run n v)"
  by (simp add: is_run_def run_count_fmt run_value_fmt)

subsection \<open>The loop invariant\<close>

text \<open>
  After any prefix of the cells, the finished runs followed by the open run expand to
  exactly that prefix.
\<close>

definition expand :: "string list \<Rightarrow> int list" where
  "expand parts = concat (map (\<lambda>p. replicate (run_count p) (run_value p)) parts)"

lemma expand_snoc: "1 \<le> n \<Longrightarrow> expand (parts @ [fmt_run n v]) = expand parts @ replicate n v"
  by (simp add: expand_def run_count_fmt run_value_fmt)

fun rle_inv :: "rle_state \<Rightarrow> int list \<Rightarrow> bool" where
  "rle_inv (parts, None, count) cells = (parts = [] \<and> cells = [])"
| "rle_inv (parts, Some c, count) cells =
     (1 \<le> count \<and> list_all is_run parts \<and> expand parts @ replicate count c = cells)"

lemma rle_inv_step: "rle_inv st cells \<Longrightarrow> rle_inv (rle_step st b) (cells @ [b])"
proof (cases st)
  case (fields parts cur count)
  assume inv: "rle_inv st cells"
  show ?thesis
  proof (cases cur)
    case None
    with fields inv show ?thesis by (simp add: expand_def)
  next
    case (Some c)
    with fields inv show ?thesis
      by (auto simp: expand_snoc is_run_fmt replicate_append_same)
  qed
qed

lemma rle_inv_foldl: "rle_inv st cells \<Longrightarrow> rle_inv (foldl rle_step st bs) (cells @ bs)"
proof (induction bs arbitrary: st cells)
  case Nil
  then show ?case by simp
next
  case (Cons b bs)
  from Cons.IH[OF rle_inv_step[OF Cons.prems, of b]] show ?case by simp
qed

lemma rle_finish_inv:
  assumes "rle_inv st cells"
  shows "list_all is_run (rle_finish st) \<and> expand (rle_finish st) = cells
         \<and> (cells \<noteq> [] \<longrightarrow> rle_finish st \<noteq> [])"
proof (cases st)
  case (fields parts cur count)
  show ?thesis
  proof (cases cur)
    case None
    with fields assms show ?thesis by (simp add: expand_def)
  next
    case (Some c)
    with fields assms show ?thesis
      by (auto simp: expand_snoc is_run_fmt)
  qed
qed

lemma rle_loop_in_range:
  "\<forall>(y, x)\<in>set ps. y < length grid \<and> x < length (grid ! y) \<Longrightarrow>
   rle_loop grid ps st = Inr (foldl rle_step st (map (\<lambda>(y, x). grid ! y ! x) ps))"
proof (induction ps arbitrary: st)
  case Nil
  then show ?case by simp
next
  case (Cons p ps)
  obtain y x where p: "p = (y, x)" by (cases p)
  from Cons.prems p have "y < length grid \<and> x < length (grid ! y)" by simp
  moreover from Cons.prems have "\<forall>(y, x)\<in>set ps. y < length grid \<and> x < length (grid ! y)"
    by simp
  ultimately show ?case
    using Cons.IH[of "rle_step st (grid ! y ! x)"] p by (simp add: grid_get_def)
qed

lemma row_nth: "length r = w \<Longrightarrow> map (\<lambda>x. r ! x) [0..<w] = r"
  using map_nth[of r] by simp

lemma cells_rect:
  assumes "\<forall>row\<in>set grid. length row = w"
  shows "map (\<lambda>(y, x). grid ! y ! x) (List.product [0..<length grid] [0..<w]) = concat grid"
proof -
  have "map (\<lambda>(y, x). grid ! y ! x) (List.product [0..<length grid] [0..<w])
        = concat (map (\<lambda>y. map (\<lambda>x. grid ! y ! x) [0..<w]) [0..<length grid])"
    by (simp add: product_concat_map map_concat comp_def)
  also have "map (\<lambda>y. map (\<lambda>x. grid ! y ! x) [0..<w]) [0..<length grid]
             = map (\<lambda>y. grid ! y) [0..<length grid]"
  proof (rule map_cong[OF refl])
    fix y assume "y \<in> set [0..<length grid]"
    then have "length (grid ! y) = w" using assms by simp
    then show "map (\<lambda>x. grid ! y ! x) [0..<w] = grid ! y" by (rule row_nth)
  qed
  also have "concat (map (\<lambda>y. grid ! y) [0..<length grid]) = concat grid"
    by (simp add: map_nth)
  finally show ?thesis .
qed


lemma length_concat_rect:
  "\<forall>row\<in>set grid. length row = w \<Longrightarrow> length (concat grid) = w * length grid"
  by (induction grid) auto

lemma length_expand: "length (expand parts) = sum_list (map run_count parts)"
  by (induction parts) (auto simp: expand_def)

lemma is_run_no_comma: "is_run p \<Longrightarrow> CHR '','' \<notin> set p"
  using fmt_run_no_comma[of "run_count p" "run_value p"] by (simp add: is_run_def)

lemma is_run_nonempty: "is_run p \<Longrightarrow> p \<noteq> []"
  using fmt_run_nonempty[of "run_count p" "run_value p"] by (auto simp: is_run_def)

lemma ffa_foldl:
  "foldl rle_step (parts, Some c, n) bs =
     (case foldl ffa_step (parts, c, n) bs of (parts', c', n') \<Rightarrow> (parts', Some c', n'))"
  by (induction bs arbitrary: parts c n) auto

lemma rle_encode_rect:
  assumes "\<forall>row\<in>set grid. length row = width"
  shows "rle_encode grid width (length grid)
         = Inr (join '','' (rle_finish (foldl rle_step ([], None, 0) (concat grid))))"
proof -
  have "\<forall>(y, x)\<in>set (List.product [0..<length grid] [0..<width]).
          y < length grid \<and> x < length (grid ! y)"
    using assms by auto
  from rle_loop_in_range[OF this] cells_rect[OF assms] show ?thesis
    by (simp add: rle_encode_def)
qed

lemma rle_encode_ffa_eq:
  "concat grid \<noteq> [] \<Longrightarrow>
   rle_encode_ffa grid width height
     = join '','' (rle_finish (foldl rle_step ([], None, 0) (concat grid)))"
  by (cases "concat grid") (auto simp: rle_encode_ffa_def ffa_foldl split: prod.splits)

text \<open>
  Claim C10. For a non-empty rectangular grid of \<open>height\<close> rows and \<open>width\<close> columns the
  three encoders return the same comma-separated string; every part of it is a run
  (\<open>NxV\<close> with \<open>N > 1\<close>, or a bare \<open>V\<close> for a run of one); the run lengths add up to
  \<open>width * height\<close>; and expanding the runs in order gives back the cells of the grid in
  row-major order.
\<close>

theorem rle_encode_roundtrip:
  assumes "length grid = height" and "0 < height" and "0 < width"
    and "\<forall>row\<in>set grid. length row = width"
  shows "\<exists>s. rle_encode grid width height = Inr s
           \<and> rle_encode_ffa grid width height = s
           \<and> rle_encode_squid grid = Inr s
           \<and> list_all is_run (split_on CHR '','' s)
           \<and> sum_list (map run_count (split_on CHR '','' s)) = width * height
           \<and> rle_decode s = concat grid"
proof -
  define cells where "cells = concat grid"
  define parts where "parts = rle_finish (foldl rle_step ([], None, 0) cells)"
  define s where "s = join '','' parts"
  have len: "length cells = width * height"
    unfolding cells_def using length_concat_rect[OF assms(4)] assms(1)
    by simp
  then have ne: "cells \<noteq> []"
    using assms(2,3) by auto
  have "rle_inv ([], None, 0) []" by simp
  from rle_inv_foldl[OF this, of cells] have "rle_inv (foldl rle_step ([], None, 0) cells) cells"
    by simp
  from rle_finish_inv[OF this] ne
  have runs: "list_all is_run parts" and ex: "expand parts = cells" and pne: "parts \<noteq> []"
    by (simp_all add: parts_def)
  have nocomma: "\<forall>p\<in>set parts. CHR '','' \<notin> set p"
    using runs is_run_no_comma by (auto simp: list_all_iff)
  have nonempty: "\<forall>p\<in>set parts. p \<noteq> []"
    using runs is_run_nonempty by (auto simp: list_all_iff)
  have split: "split_on CHR '','' s = parts"
    unfolding s_def using split_join[OF pne nocomma] by simp
  have sne: "s \<noteq> []"
    unfolding s_def by (rule join_nonempty[OF pne nonempty])
  have enc: "rle_encode grid width height = Inr s"
    using rle_encode_rect[OF assms(4)] assms(1) by (simp add: s_def parts_def cells_def)
  have ffa: "rle_encode_ffa grid width height = s"
    using rle_encode_ffa_eq[of grid width height] ne
    by (simp add: s_def parts_def cells_def)
  obtain row0 rest where g: "grid = row0 # rest"
    using assms(1,2) by (cases grid) auto
  then have "length row0 = width" using assms(4) by simp
  then have squid: "rle_encode_squid grid = Inr s"
    using enc g assms(1) by (simp add: rle_encode_squid_def)
  have dec: "rle_decode s = concat grid"
    using sne split ex by (simp add: rle_decode_def expand_def cells_def)
  have "sum_list (map run_count parts) = width * height"
    using length_expand[of parts] ex len by simp
  with enc ffa squid runs split dec show ?thesis by auto
qed

theorem rle_encode_roundtrip_witness:
  "rle_encode [[1, 1, 1], [1, 2, - 1]] 3 2 = Inr ''4x1,2,-1''
   \<and> rle_encode_ffa [[1, 1, 1], [1, 2, - 1]] 3 2 = ''4x1,2,-1''
   \<and> rle_encode_squid [[1, 1, 1], [1, 2, - 1]] = Inr ''4x1,2,-1''
   \<and> rle_decode ''4x1,2,-1'' = [1, 1, 1, 1, 2, - 1]"
proof -
  have enc: "rle_encode [[1, 1, 1], [1, 2, - 1]] 3 2 = Inr ''4x1,2,-1''"
    by code_simp
  from rle_encode_roundtrip[of "[[1, 1, 1], [1, 2, - 1]]" 2 3]
  obtain s where s: "rle_encode [[1, 1, 1], [1, 2, - 1]] 3 2 = Inr s"
      "rle_encode_ffa [[1, 1, 1], [1, 2, - 1]] 3 2 = s"
      "rle_encode_squid [[1, 1, 1], [1, 2, - 1]] = Inr s"
      "rle_decode s = concat [[1, 1, 1], [1, 2, - 1]]"
    by auto
  from s(1) enc have "s = ''4x1,2,-1''" by simp
  with s show ?thesis by simp
qed

section \<open>Instances, the registry and the directory\<close>

text \<open>
  The module-level state of Zombies.py: \<open>active_games\<close> (instance id to instance, in
  insertion order), \<open>player_to_game\<close> (the directory) and \<open>next_game_id\<close>, together with
  what the host keeps for the plugin: whether a broadcast override is installed, and
  every message handed to \<open>send_to_client\<close> or \<open>ws.send\<close>. An instance object outlives
  its registration (its tasks still hold it), so the objects live in a store keyed by
  their id and \<open>active_games\<close> lists the registered ids. A Python \<open>set\<close> of names is a
  duplicate-free list; no statement below depends on its order.

  The host's \<open>server_api\<close> is a parameter: the connected handles and the two resolution
  functions. The texts the plugin does not compute in the orchestration code (world
  JSON, rendered images) are parameters as well.
\<close>

type_synonym username = string
type_synonym websocket = nat

record server_api =
  get_connected_clients :: "websocket list"
  get_username_from_websocket :: "websocket \<Rightarrow> username option"
  get_websocket_from_username :: "username \<Rightarrow> websocket option"

record config =
  min_players :: int
  max_players :: int
  countdown_normal :: int
  countdown_full :: int
  lobby_x :: int
  lobby_y :: int

record assets =
  lobby_world_json :: string
  game_world_json :: string
  main_world_json :: string
  image_url :: "string \<Rightarrow> string"

datatype game_state = Waiting | Countdown | Playing | Ended

datatype effect = Send websocket string | Log string

text \<open>
  Where the countdown coroutine is suspended. \<open>AtNotify i\<close> and \<open>AtSleep i\<close> are the two
  awaits of iteration \<open>i\<close>, \<open>AtHide\<close> the broadcast after the loop, \<open>AtStartGame\<close> the
  awaits inside \<open>start_game\<close>, \<open>AtNotEnough\<close> the broadcast of the expiry with too few
  players, and \<open>InHandlerMsg\<close>, \<open>InHandlerHide\<close> the two broadcasts of the
  \<open>CancelledError\<close> handler. A suspended task carries the sends of the operation it
  awaits (\<open>pending\<close>, the roster being read when the broadcast starts); they are done
  when the task resumes, or only a prefix of them when it is cancelled there.
\<close>

datatype cd_pc =
    NotStarted
  | AtNotify int
  | AtSleep int
  | AtHide
  | AtStartGame
  | AtNotEnough
  | InHandlerMsg
  | InHandlerHide
  | Done

record cd_task =
  cd_pc :: cd_pc
  cancel_requested :: bool
  pending :: "effect list"

record game_instance =
  game_id :: nat
  game_state :: game_state
  players :: "username list"
  lobby_players :: "username list"
  in_game_players :: "username list"
  active_zombies :: "string list"
  countdown_tasks :: "cd_task list"
  game_loop_task :: "bool option"

record world =
  instances :: "nat \<Rightarrow> game_instance option"
  active_games :: "nat list"
  player_to_game :: "username \<Rightarrow> nat option"
  next_game_id :: nat
  broadcast_override :: bool
  end_game_tasks :: "(nat \<times> bool) list"
  outbox :: "effect list"

definition new_instance :: "nat \<Rightarrow> game_instance" where
  "new_instance gid =
     \<lparr> game_id = gid, game_state = Waiting, players = [], lobby_players = [],
       in_game_players = [], active_zombies = [], countdown_tasks = [],
       game_loop_task = None \<rparr>"

definition initial_world :: world where
  "initial_world =
     \<lparr> instances = (\<lambda>_. None), active_games = [], player_to_game = (\<lambda>_. None),
       next_game_id = 0, broadcast_override = False, end_game_tasks = [], outbox = [] \<rparr>"

definition set_add :: "'a \<Rightarrow> 'a list \<Rightarrow> 'a list" where
  "set_add x xs = (if x \<in> set xs then xs else xs @ [x])"

definition discard :: "'a \<Rightarrow> 'a list \<Rightarrow> 'a list" where
  "discard x xs = removeAll x xs"

definition upd_game :: "nat \<Rightarrow> (game_instance \<Rightarrow> game_instance) \<Rightarrow> world \<Rightarrow> world" where
  "upd_game gid f w =
     (case instances w gid of
        None \<Rightarrow> w
      | Some g \<Rightarrow> w\<lparr>instances := (instances w)(gid \<mapsto> f g)\<rparr>)"

definition emit :: "effect list \<Rightarrow> world \<Rightarrow> world" where
  "emit es w = w\<lparr>outbox := outbox w @ es\<rparr>"

definition roster :: "world \<Rightarrow> nat \<Rightarrow> username list" where
  "roster w gid = (case instances w gid of None \<Rightarrow> [] | Some g \<Rightarrow> players g)"

definition state_of :: "world \<Rightarrow> nat \<Rightarrow> game_state option" where
  "state_of w gid = map_option game_state (instances w gid)"

subsection \<open>Sending\<close>

definition send_to_user :: "server_api \<Rightarrow> username \<Rightarrow> string \<Rightarrow> effect list" where
  "send_to_user srv username text =
     (case get_websocket_from_username srv username of
        None \<Rightarrow> []
      | Some ws \<Rightarrow> [Send ws text])"

definition broadcast_msgs :: "server_api \<Rightarrow> username list \<Rightarrow> string \<Rightarrow> effect list" where
  "broadcast_msgs srv names text = concat (map (\<lambda>u. send_to_user srv u text) names)"

definition broadcast_to_game_players :: "server_api \<Rightarrow> nat \<Rightarrow> string \<Rightarrow> world \<Rightarrow> world" where
  "broadcast_to_game_players srv gid text w = emit (broadcast_msgs srv (roster w gid) text) w"

definition teleport_msgs ::
  "server_api \<Rightarrow> username \<Rightarrow> string \<Rightarrow> int \<Rightarrow> int \<Rightarrow> effect list" where
  "teleport_msgs srv username world_json pixel_x pixel_y =
     (case get_websocket_from_username srv username of
        None \<Rightarrow> []
      | Some ws \<Rightarrow>
          [Send ws (''WORLD_DATA|PLACERSERVER|'' @ world_json),
           Send ws (''SET_POSITION|PLACERSERVER|'' @ str_int pixel_x @ ''|'' @ str_int pixel_y
                    @ ''|'' @ username)])"

definition in_directory :: "world \<Rightarrow> username option \<Rightarrow> bool" where
  "in_directory w name = (case name of None \<Rightarrow> False | Some u \<Rightarrow> player_to_game w u \<noteq> None)"

definition main_world_websockets :: "server_api \<Rightarrow> world \<Rightarrow> websocket list" where
  "main_world_websockets srv w =
     filter (\<lambda>ws. \<not> in_directory w (get_username_from_websocket srv ws))
       (get_connected_clients srv)"

definition despawn_msg :: "string \<Rightarrow> string" where
  "despawn_msg name = name @ ''|-999|-999|Default|0|0|PLAYER_INFO''"

subsection \<open>The countdown task handle\<close>

definition task_done :: "cd_task \<Rightarrow> bool" where
  "task_done t = (cd_pc t = Done)"

definition task_cancel :: "cd_task \<Rightarrow> cd_task" where
  "task_cancel t = (if task_done t then t else t\<lparr>cancel_requested := True\<rparr>)"

definition cancel_current :: "game_instance \<Rightarrow> game_instance" where
  "cancel_current g =
     (case countdown_tasks g of
        [] \<Rightarrow> g
      | ts \<Rightarrow> g\<lparr>countdown_tasks := butlast ts @ [task_cancel (last ts)]\<rparr>)"

definition start_countdown :: "game_instance \<Rightarrow> game_instance" where
  "start_countdown g =
     (let g1 = cancel_current g
      in g1\<lparr>countdown_tasks :=
              countdown_tasks g1 @ [\<lparr>cd_pc = NotStarted, cancel_requested = False, pending = []\<rparr>]\<rparr>)"

subsection \<open>Joining: \<open>add_player\<close> and the join branch of \<open>on_message\<close>\<close>

definition joinable :: "game_instance \<Rightarrow> bool" where
  "joinable g = (game_state g = Waiting \<or> game_state g = Countdown)"

definition join_msg :: "config \<Rightarrow> username \<Rightarrow> nat \<Rightarrow> string" where
  "join_msg cfg username n =
     ''TELLRAW|PLACERSERVER|'' @ username @ '' joined! ('' @ str_nat n @ ''/''
       @ str_int (max_players cfg) @ '')''"

definition admit :: "config \<Rightarrow> game_instance \<Rightarrow> game_instance" where
  "admit cfg g =
     (if min_players cfg \<le> int (length (players g)) \<and> game_state g = Waiting
      then start_countdown g
      else if int (length (players g)) = max_players cfg then start_countdown g
      else g)"

definition add_player_claim ::
  "server_api \<Rightarrow> config \<Rightarrow> assets \<Rightarrow> nat \<Rightarrow> username \<Rightarrow> world \<Rightarrow> world" where
  "add_player_claim srv cfg ast gid username w =
     (let w1 = upd_game gid (\<lambda>g. g\<lparr>players := set_add username (players g),
                                    lobby_players := set_add username (lobby_players g)\<rparr>) w;
          w2 = w1\<lparr>player_to_game := (player_to_game w1)(username \<mapsto> gid)\<rparr>;
          w3 = emit (teleport_msgs srv username (lobby_world_json ast) 2420 2744) w2;
          w4 = broadcast_to_game_players srv gid
                 (join_msg cfg username (length (roster w3 gid))) w3
      in upd_game gid (admit cfg) w4)"

definition add_player ::
  "server_api \<Rightarrow> config \<Rightarrow> assets \<Rightarrow> nat \<Rightarrow> username \<Rightarrow> world \<Rightarrow> world" where
  "add_player srv cfg ast gid username w =
     (case instances w gid of
        None \<Rightarrow> w
      | Some g \<Rightarrow>
          if \<not> joinable g
          then emit (send_to_user srv username
                  ''TELLRAW|PLACERSERVER|This game has already started.'') w
          else if max_players cfg \<le> int (length (players g))
          then emit (send_to_user srv username ''TELLRAW|PLACERSERVER|This game is full.'') w
          else add_player_claim srv cfg ast gid username
                 (emit (map (\<lambda>ws. Send ws (despawn_msg username)) (main_world_websockets srv w)) w))"

definition eligible :: "config \<Rightarrow> world \<Rightarrow> nat \<Rightarrow> bool" where
  "eligible cfg w gid =
     (case instances w gid of
        None \<Rightarrow> False
      | Some g \<Rightarrow> joinable g \<and> int (length (players g)) < max_players cfg)"

definition find_target :: "config \<Rightarrow> world \<Rightarrow> nat option" where
  "find_target cfg w =
     (case filter (eligible cfg w) (active_games w) of [] \<Rightarrow> None | gid # _ \<Rightarrow> Some gid)"

definition create_game :: "world \<Rightarrow> world" where
  "create_game w =
     (let w1 = (if active_games w = []
                then emit [Log ''ZombiesGame: First game created, broadcast override is active.'']
                       (w\<lparr>broadcast_override := True\<rparr>)
                else w)
      in w1\<lparr>instances := (instances w1)(next_game_id w1 \<mapsto> new_instance (next_game_id w1)),
             active_games := active_games w1 @ [next_game_id w1],
             next_game_id := next_game_id w1 + 1\<rparr>)"

definition find_or_create :: "config \<Rightarrow> world \<Rightarrow> nat \<times> world" where
  "find_or_create cfg w =
     (case find_target cfg w of
        Some gid \<Rightarrow> (gid, w)
      | None \<Rightarrow> (next_game_id w, create_game w))"

definition join_clicked :: "server_api \<Rightarrow> config \<Rightarrow> assets \<Rightarrow> username \<Rightarrow> world \<Rightarrow> world" where
  "join_clicked srv cfg ast username w =
     (if player_to_game w username \<noteq> None then w
      else (case find_or_create cfg w of (gid, w1) \<Rightarrow> add_player srv cfg ast gid username w1))"

subsection \<open>Ending: \<open>end_game\<close> and \<open>_end_game_task\<close>\<close>

text \<open>
  \<open>end_game\<close> is synchronous: it returns at once on an instance already \<open>ended\<close>, and
  otherwise marks the instance and creates the task that tears it down. The created tasks
  are recorded in \<open>end_game_tasks\<close>.
\<close>

definition end_game :: "nat \<Rightarrow> bool \<Rightarrow> world \<Rightarrow> world" where
  "end_game gid victory w =
     (case instances w gid of
        None \<Rightarrow> w
      | Some g \<Rightarrow>
          if game_state g = Ended then w
          else (upd_game gid (\<lambda>g. g\<lparr>game_state := Ended\<rparr>) w)
                 \<lparr>end_game_tasks := end_game_tasks w @ [(gid, victory)]\<rparr>)"

definition cancel_loop :: "game_instance \<Rightarrow> game_instance" where
  "cancel_loop g =
     (case game_loop_task g of None \<Rightarrow> g | Some _ \<Rightarrow> g\<lparr>game_loop_task := Some True\<rparr>)"

fun release_players ::
  "server_api \<Rightarrow> config \<Rightarrow> assets \<Rightarrow> username list \<Rightarrow> world \<Rightarrow> world" where
  "release_players srv cfg ast [] w = w"
| "release_players srv cfg ast (username # rest) w =
     release_players srv cfg ast rest
       (emit (teleport_msgs srv username (main_world_json ast) (lobby_x cfg) (lobby_y cfg))
          (w\<lparr>player_to_game := (player_to_game w)(username := None)\<rparr>))"

definition unregister :: "nat \<Rightarrow> world \<Rightarrow> world" where
  "unregister gid w =
     (let w1 = w\<lparr>active_games := removeAll gid (active_games w)\<rparr>
      in if active_games w1 = []
         then emit [Log ''ZombiesGame: Last game ended, broadcast override released.'']
                (w1\<lparr>broadcast_override := False\<rparr>)
         else w1)"

definition end_game_task ::
  "server_api \<Rightarrow> config \<Rightarrow> assets \<Rightarrow> nat \<Rightarrow> bool \<Rightarrow> world \<Rightarrow> world" where
  "end_game_task srv cfg ast gid victory w =
     (let w1 = upd_game gid (\<lambda>g. cancel_current (cancel_loop g)) w;
          w2 = broadcast_to_game_players srv gid ''HIDE_IMAGE|PLACERSERVER|'' w1;
          w3 = broadcast_to_game_players srv gid
                 (''SHOW_IMAGE|PLACERSERVER|''
                    @ image_url ast (if victory then ''VICTORY!'' else ''DEFEATED!'')) w2;
          w4 = foldl (\<lambda>w z. broadcast_to_game_players srv gid (despawn_msg z) w) w3
                 (case instances w3 gid of None \<Rightarrow> [] | Some g \<Rightarrow> active_zombies g);
          w5 = upd_game gid (\<lambda>g. g\<lparr>active_zombies := []\<rparr>) w4;
          w6 = broadcast_to_game_players srv gid ''HIDE_IMAGE|PLACERSERVER|'' w5;
          w7 = release_players srv cfg ast (roster w6 gid) w6;
          w8 = upd_game gid (\<lambda>g. g\<lparr>players := [], in_game_players := [],
                                     lobby_players := []\<rparr>) w7
      in unregister gid w8)"

text \<open>Running the first teardown task that \<open>end_game\<close> created, if there is one.\<close>

definition run_end_game_task :: "server_api \<Rightarrow> config \<Rightarrow> assets \<Rightarrow> world \<Rightarrow> world" where
  "run_end_game_task srv cfg ast w =
     (case end_game_tasks w of
        [] \<Rightarrow> w
      | (gid, victory) # rest \<Rightarrow> end_game_task srv cfg ast gid victory (w\<lparr>end_game_tasks := rest\<rparr>))"

fun run_end_game_tasks :: "nat \<Rightarrow> server_api \<Rightarrow> config \<Rightarrow> assets \<Rightarrow> world \<Rightarrow> world" where
  "run_end_game_tasks 0 srv cfg ast w = w"
| "run_end_game_tasks (Suc n) srv cfg ast w =
     run_end_game_tasks n srv cfg ast (run_end_game_task srv cfg ast w)"

subsection \<open>Leaving: \<open>remove_player\<close> and \<open>on_disconnect\<close>\<close>

definition leave_msg :: "config \<Rightarrow> username \<Rightarrow> nat \<Rightarrow> string" where
  "leave_msg cfg username n =
     ''TELLRAW|PLACERSERVER|'' @ username @ '' left the game. ('' @ str_nat n @ ''/''
       @ str_int (max_players cfg) @ '')''"

definition remove_player :: "server_api \<Rightarrow> config \<Rightarrow> nat \<Rightarrow> username \<Rightarrow> world \<Rightarrow> world" where
  "remove_player srv cfg gid username w =
     (let w1 = upd_game gid (\<lambda>g. g\<lparr>players := discard username (players g),
                                    lobby_players := discard username (lobby_players g),
                                    in_game_players := discard username (in_game_players g)\<rparr>) w;
          w2 = w1\<lparr>player_to_game := (player_to_game w1)(username := None)\<rparr>;
          w3 = broadcast_to_game_players srv gid (despawn_msg username) w2;
          w4 = broadcast_to_game_players srv gid
                 (leave_msg cfg username (length (roster w3 gid))) w3;
          w5 = (if state_of w4 gid = Some Countdown
                   \<and> int (length (roster w4 gid)) < min_players cfg
                then upd_game gid cancel_current w4 else w4)
      in if roster w5 gid = [] \<and> state_of w5 gid \<noteq> Some Ended
         then end_game gid False w5 else w5)"

definition on_disconnect :: "server_api \<Rightarrow> config \<Rightarrow> websocket \<Rightarrow> world \<Rightarrow> world" where
  "on_disconnect srv cfg ws w =
     (case get_username_from_websocket srv ws of
        None \<Rightarrow> w
      | Some username \<Rightarrow>
          if username = [] then w
          else (case player_to_game w username of
                  None \<Rightarrow> w
                | Some gid \<Rightarrow>
                    if gid \<in> set (active_games w) then remove_player srv cfg gid username w
                    else w))"

subsection \<open>The countdown coroutine, one resumption at a time\<close>

text \<open>
  \<open>countdown()\<close> of \<open>start_countdown\<close>. \<open>countdown_resume\<close> runs task \<open>tid\<close> of instance
  \<open>gid\<close> from the await it is suspended in to its next await. A task whose cancellation
  was requested gets \<open>CancelledError\<close> raised at that await instead, after the first \<open>k\<close>
  sends of the awaited operation: inside the \<open>try\<close> this runs the handler, inside the
  handler it ends the task. (\<open>CancelledError\<close> is not an \<open>Exception\<close>, so the
  \<open>except Exception\<close> clauses of the broadcast helpers let it through.) A task cancelled
  before its first step never runs its body.
\<close>

definition wait_time :: "config \<Rightarrow> game_instance \<Rightarrow> int" where
  "wait_time cfg g =
     (if int (length (players g)) = max_players cfg then countdown_full cfg
      else countdown_normal cfg)"

definition enter_iter :: "int \<Rightarrow> cd_pc" where
  "enter_iter i =
     (if i \<le> 0 then AtHide
      else if i \<le> 5 then AtNotify i
      else if i mod 5 = 0 then AtNotify i
      else AtSleep i)"

definition start_game_msgs :: "server_api \<Rightarrow> assets \<Rightarrow> game_instance \<Rightarrow> effect list" where
  "start_game_msgs srv ast g =
     broadcast_msgs srv (players g) ''KILL_LOG|PLACERSERVER|''
     @ concat (map (\<lambda>u. teleport_msgs srv u (game_world_json ast) 2413 1504) (in_game_players g))
     @ broadcast_msgs srv (players g) ''TELLRAW|PLACERSERVER|GAME STARTED! Defend the core!''"

definition await_msgs :: "server_api \<Rightarrow> assets \<Rightarrow> game_instance \<Rightarrow> cd_pc \<Rightarrow> effect list" where
  "await_msgs srv ast g pc =
     (case pc of
        AtNotify i \<Rightarrow>
          broadcast_msgs srv (players g)
            (if i \<le> 5 then ''SHOW_IMAGE|PLACERSERVER|'' @ image_url ast (str_int i)
             else ''TELLRAW|PLACERSERVER|Game starting in '' @ str_int i @ ''...'')
      | AtHide \<Rightarrow> broadcast_msgs srv (players g) ''HIDE_IMAGE|PLACERSERVER|''
      | AtStartGame \<Rightarrow> start_game_msgs srv ast g
      | AtNotEnough \<Rightarrow>
          broadcast_msgs srv (players g)
            ''TELLRAW|PLACERSERVER|Not enough players to start. Countdown cancelled.''
      | InHandlerMsg \<Rightarrow>
          broadcast_msgs srv (players g) ''TELLRAW|PLACERSERVER|Countdown cancelled.''
      | InHandlerHide \<Rightarrow> broadcast_msgs srv (players g) ''HIDE_IMAGE|PLACERSERVER|''
      | _ \<Rightarrow> [])"

definition set_task :: "nat \<Rightarrow> cd_task \<Rightarrow> game_instance \<Rightarrow> game_instance" where
  "set_task tid t g = g\<lparr>countdown_tasks := (countdown_tasks g)[tid := t]\<rparr>"

definition enter :: "server_api \<Rightarrow> assets \<Rightarrow> nat \<Rightarrow> cd_pc \<Rightarrow> game_instance \<Rightarrow> game_instance" where
  "enter srv ast tid pc g =
     set_task tid \<lparr>cd_pc = pc, cancel_requested = False, pending = await_msgs srv ast g pc\<rparr> g"

definition finish :: "nat \<Rightarrow> game_instance \<Rightarrow> game_instance" where
  "finish tid g = set_task tid \<lparr>cd_pc = Done, cancel_requested = False, pending = []\<rparr> g"

definition start_game :: "game_instance \<Rightarrow> game_instance" where
  "start_game g =
     g\<lparr>game_state := Playing, in_game_players := lobby_players g, lobby_players := []\<rparr>"

definition expire :: "server_api \<Rightarrow> config \<Rightarrow> assets \<Rightarrow> nat \<Rightarrow> game_instance \<Rightarrow> game_instance" where
  "expire srv cfg ast tid g =
     (if game_state g = Countdown \<and> min_players cfg \<le> int (length (players g))
      then enter srv ast tid AtStartGame (start_game g)
      else if game_state g = Countdown
      then enter srv ast tid AtNotEnough (g\<lparr>game_state := Waiting\<rparr>)
      else finish tid g)"

definition proceed ::
  "server_api \<Rightarrow> config \<Rightarrow> assets \<Rightarrow> nat \<Rightarrow> cd_pc \<Rightarrow> game_instance \<Rightarrow> game_instance" where
  "proceed srv cfg ast tid pc g =
     (case pc of
        NotStarted \<Rightarrow>
          (let g1 = g\<lparr>game_state := Countdown\<rparr>
           in enter srv ast tid (enter_iter (wait_time cfg g1)) g1)
      | AtNotify i \<Rightarrow> enter srv ast tid (AtSleep i) g
      | AtSleep i \<Rightarrow> enter srv ast tid (enter_iter (i - 1)) g
      | AtHide \<Rightarrow> expire srv cfg ast tid g
      | AtStartGame \<Rightarrow> finish tid (g\<lparr>game_loop_task := Some False\<rparr>)
      | AtNotEnough \<Rightarrow> finish tid g
      | InHandlerMsg \<Rightarrow> enter srv ast tid InHandlerHide g
      | InHandlerHide \<Rightarrow> finish tid g
      | Done \<Rightarrow> g)"

definition in_handler :: "cd_pc \<Rightarrow> bool" where
  "in_handler pc = (pc = InHandlerMsg \<or> pc = InHandlerHide)"

definition cancelled_error ::
  "server_api \<Rightarrow> assets \<Rightarrow> nat \<Rightarrow> cd_pc \<Rightarrow> game_instance \<Rightarrow> game_instance" where
  "cancelled_error srv ast tid pc g =
     (if pc = NotStarted \<or> in_handler pc then finish tid g
      else enter srv ast tid InHandlerMsg (g\<lparr>game_state := Waiting\<rparr>))"

definition countdown_resume ::
  "server_api \<Rightarrow> config \<Rightarrow> assets \<Rightarrow> nat \<Rightarrow> nat \<Rightarrow> nat \<Rightarrow> world \<Rightarrow> world" where
  "countdown_resume srv cfg ast gid tid k w =
     (case instances w gid of
        None \<Rightarrow> w
      | Some g \<Rightarrow>
          if length (countdown_tasks g) \<le> tid then w
          else (let t = countdown_tasks g ! tid
                in if task_done t then w
                   else if cancel_requested t
                   then upd_game gid (cancelled_error srv ast tid (cd_pc t))
                          (emit (take k (pending t)) w)
                   else upd_game gid (proceed srv cfg ast tid (cd_pc t))
                          (emit (pending t) w)))"

subsection \<open>The broadcast override\<close>

text \<open>
  \<open>minigame_broadcast_override(server_api, message, exclude_websocket)\<close>, the same in
  Zombies.py and FreeForAll.py. The sender is read off the frame: \<open>parts[0]\<close> when
  \<open>parts[0]\<close> is or ends with \<open>PLAYER_INFO\<close>, \<open>parts[2]\<close> when \<open>parts[0]\<close> is
  \<open>PLAYER_MESSAGE\<close> (\<open>IndexError\<close> on a shorter frame), else the name behind the excluded
  handle. Any exception is caught and logged, and then nothing is sent.
\<close>

definition ends_with :: "string \<Rightarrow> string \<Rightarrow> bool" where
  "ends_with s suffix =
     (length suffix \<le> length s \<and> drop (length s - length suffix) s = suffix)"

definition identify_sender ::
  "server_api \<Rightarrow> string \<Rightarrow> websocket option \<Rightarrow> py_error + username option" where
  "identify_sender srv message exclude_websocket =
     (let parts = split_on CHR ''|'' message; msg_type = hd parts
      in if msg_type = ''PLAYER_INFO'' \<or> ends_with msg_type ''PLAYER_INFO''
         then Inr (Some (hd parts))
         else if msg_type = ''PLAYER_MESSAGE''
         then (if 2 < length parts then Inr (Some (parts ! 2)) else Inl IndexError)
         else (case exclude_websocket of
                 Some ws \<Rightarrow> Inr (get_username_from_websocket srv ws)
               | None \<Rightarrow> Inr None))"

definition directory_get :: "world \<Rightarrow> username option \<Rightarrow> nat option" where
  "directory_get w name = (case name of None \<Rightarrow> None | Some u \<Rightarrow> player_to_game w u)"

definition game_targets :: "server_api \<Rightarrow> game_instance \<Rightarrow> websocket option \<Rightarrow> websocket list" where
  "game_targets srv game exclude_websocket =
     (let targets = filter (\<lambda>t. t \<noteq> exclude_websocket)
                      (map (get_websocket_from_username srv) (players game))
      in concat (map (\<lambda>t. case t of None \<Rightarrow> [] | Some ws \<Rightarrow> [ws]) targets))"

definition main_world_targets :: "server_api \<Rightarrow> world \<Rightarrow> websocket option \<Rightarrow> websocket list" where
  "main_world_targets srv w exclude_websocket =
     filter (\<lambda>ws. \<not> in_directory w (get_username_from_websocket srv ws)
                  \<and> Some ws \<noteq> exclude_websocket)
       (get_connected_clients srv)"

definition route :: "server_api \<Rightarrow> world \<Rightarrow> username option \<Rightarrow> websocket option \<Rightarrow> websocket list" where
  "route srv w sender_username exclude_websocket =
     (case directory_get w sender_username of
        Some sender_game_id \<Rightarrow>
          (if sender_game_id \<in> set (active_games w)
           then (case instances w sender_game_id of
                   None \<Rightarrow> []
                 | Some game \<Rightarrow> game_targets srv game exclude_websocket)
           else [])
      | None \<Rightarrow> main_world_targets srv w exclude_websocket)"

definition override_recipients ::
  "server_api \<Rightarrow> world \<Rightarrow> string \<Rightarrow> websocket option \<Rightarrow> py_error + websocket list" where
  "override_recipients srv w message exclude_websocket =
     (case identify_sender srv message exclude_websocket of
        Inl e \<Rightarrow> Inl e
      | Inr sender_username \<Rightarrow> Inr (route srv w sender_username exclude_websocket))"

definition minigame_broadcast_override ::
  "server_api \<Rightarrow> string \<Rightarrow> websocket option \<Rightarrow> world \<Rightarrow> world" where
  "minigame_broadcast_override srv message exclude_websocket w =
     (case override_recipients srv w message exclude_websocket of
        Inl e \<Rightarrow> emit [Log ''ZombiesGame: CRITICAL ERROR in broadcast override''] w
      | Inr targets \<Rightarrow> emit (map (\<lambda>ws. Send ws message) targets) w)"

text \<open>
  The frames the protocol calls \<open>PLAYER_INFO\<close> carry the type in their seventh field and
  the subject in the first (\<open>on_message\<close> recognises them by
  \<open>len(parts) >= 7 and parts[6] == "PLAYER_INFO"\<close>). The subject a router that reads the
  frame's own subject field would use:
\<close>

definition frame_subject :: "string \<Rightarrow> username option" where
  "frame_subject message =
     (let parts = split_on CHR ''|'' message
      in if 7 \<le> length parts \<and> parts ! 6 = ''PLAYER_INFO'' then Some (hd parts)
         else if hd parts = ''PLAYER_MESSAGE'' \<and> 2 < length parts then Some (parts ! 2)
         else None)"

subsection \<open>The configurations shipped with the plugins\<close>

definition zombies_default_config :: config where
  "zombies_default_config =
     \<lparr> min_players = 2, max_players = 8, countdown_normal = 40, countdown_full = 10,
       lobby_x = 461, lobby_y = 1104 \<rparr>"

definition ffa_default_config :: config where
  "ffa_default_config =
     \<lparr> min_players = 2, max_players = 8, countdown_normal = 30, countdown_full = 10,
       lobby_x = 500, lobby_y = 500 \<rparr>"

section \<open>Squid\_Game.py: the same orchestration, drifted\<close>

text \<open>
  Squid\_Game.py has no \<open>countdown_full\<close> key, accepts joins in \<open>waiting\<close> only, rejects
  without a message, and starts a countdown only while \<open>self.tasks\<close> holds no task named
  \<open>countdown\<close>.
\<close>

record squid_config =
  sq_min_players :: int
  sq_max_players :: int
  sq_countdown_normal :: int

definition squid_default_config :: squid_config where
  "squid_default_config =
     \<lparr> sq_min_players = 1, sq_max_players = 12, sq_countdown_normal = 45 \<rparr>"

definition squid_wait_time :: "squid_config \<Rightarrow> game_instance \<Rightarrow> int" where
  "squid_wait_time scfg g = sq_countdown_normal scfg"

definition squid_join_msg :: "squid_config \<Rightarrow> username \<Rightarrow> nat \<Rightarrow> string" where
  "squid_join_msg scfg username n =
     ''TELLRAW|PLACERSERVER|'' @ username @ '' joined! ('' @ str_nat n @ ''/''
       @ str_int (sq_max_players scfg) @ '')''"

definition squid_start_countdown :: "game_instance \<Rightarrow> game_instance" where
  "squid_start_countdown g =
     g\<lparr>countdown_tasks :=
          countdown_tasks g @ [\<lparr>cd_pc = NotStarted, cancel_requested = False, pending = []\<rparr>]\<rparr>"

definition squid_admit :: "squid_config \<Rightarrow> game_instance \<Rightarrow> game_instance" where
  "squid_admit scfg g =
     (if sq_min_players scfg \<le> int (length (players g)) \<and> countdown_tasks g = []
      then squid_start_countdown g else g)"

definition squid_add_player ::
  "server_api \<Rightarrow> squid_config \<Rightarrow> assets \<Rightarrow> nat \<Rightarrow> username \<Rightarrow> world \<Rightarrow> world" where
  "squid_add_player srv scfg ast gid username w =
     (case instances w gid of
        None \<Rightarrow> w
      | Some g \<Rightarrow>
          if game_state g \<noteq> Waiting then w
          else if sq_max_players scfg \<le> int (length (players g)) then w
          else
            (let w0 = emit (map (\<lambda>ws. Send ws (despawn_msg username))
                         (main_world_websockets srv w)) w;
                 w1 = upd_game gid (\<lambda>g. g\<lparr>players := set_add username (players g)\<rparr>) w0;
                 w2 = w1\<lparr>player_to_game := (player_to_game w1)(username \<mapsto> gid)\<rparr>;
                 w3 = emit (teleport_msgs srv username (lobby_world_json ast) 800 800) w2;
                 w4 = broadcast_to_game_players srv gid
                        (squid_join_msg scfg username (length (roster w3 gid))) w3
             in upd_game gid (squid_admit scfg) w4))"

section \<open>Admission\<close>

lemma emit_fields [simp]:
  "instances (emit es w) = instances w"
  "active_games (emit es w) = active_games w"
  "player_to_game (emit es w) = player_to_game w"
  "next_game_id (emit es w) = next_game_id w"
  "broadcast_override (emit es w) = broadcast_override w"
  "end_game_tasks (emit es w) = end_game_tasks w"
  "outbox (emit es w) = outbox w @ es"
  by (simp_all add: emit_def)

lemma upd_game_fields [simp]:
  "active_games (upd_game gid f w) = active_games w"
  "player_to_game (upd_game gid f w) = player_to_game w"
  "next_game_id (upd_game gid f w) = next_game_id w"
  "broadcast_override (upd_game gid f w) = broadcast_override w"
  "end_game_tasks (upd_game gid f w) = end_game_tasks w"
  "outbox (upd_game gid f w) = outbox w"
  by (simp_all add: upd_game_def split: option.splits)

lemma upd_game_instances:
  "instances (upd_game gid f w) = (\<lambda>i. if i = gid then map_option f (instances w gid) else instances w i)"
  by (auto simp: upd_game_def split: option.splits)

lemma roster_emit [simp]: "roster (emit es w) gid = roster w gid"
  by (simp add: roster_def)

lemma state_of_emit [simp]: "state_of (emit es w) gid = state_of w gid"
  by (simp add: state_of_def)

lemma broadcast_fields [simp]:
  "instances (broadcast_to_game_players srv gid text w) = instances w"
  "active_games (broadcast_to_game_players srv gid text w) = active_games w"
  "player_to_game (broadcast_to_game_players srv gid text w) = player_to_game w"
  "next_game_id (broadcast_to_game_players srv gid text w) = next_game_id w"
  "broadcast_override (broadcast_to_game_players srv gid text w) = broadcast_override w"
  "end_game_tasks (broadcast_to_game_players srv gid text w) = end_game_tasks w"
  by (simp_all add: broadcast_to_game_players_def)

lemma roster_broadcast [simp]: "roster (broadcast_to_game_players srv gid' text w) gid = roster w gid"
  by (simp add: roster_def)

lemma players_cancel_current [simp]: "players (cancel_current g) = players g"
  by (simp add: cancel_current_def split: list.splits)

lemma players_start_countdown [simp]: "players (start_countdown g) = players g"
  by (simp add: start_countdown_def Let_def)

lemma players_admit [simp]: "players (admit cfg g) = players g"
  by (simp add: admit_def)

lemma add_player_claim_roster:
  "instances w gid = Some g \<Longrightarrow>
   roster (add_player_claim srv cfg ast gid username w) gid = set_add username (players g)"
  by (simp add: add_player_claim_def Let_def roster_def upd_game_instances)

lemma add_player_claim_directory:
  "player_to_game (add_player_claim srv cfg ast gid username w) = (player_to_game w)(username \<mapsto> gid)"
  by (simp add: add_player_claim_def Let_def)

lemma set_add_mem: "x \<in> set (set_add x xs)"
  by (simp add: set_add_def)

lemma players_squid_admit [simp]: "players (squid_admit scfg g) = players g"
  by (simp add: squid_admit_def squid_start_countdown_def)

text \<open>Concrete hosts and worlds for the worked examples.\<close>

definition squid_countdown_world :: world where
  "squid_countdown_world =
     initial_world
       \<lparr> instances := (\<lambda>_. None)(0 \<mapsto> (new_instance 0)\<lparr>game_state := Countdown, players := [''alice'']\<rparr>),
         active_games := [0],
         player_to_game := (\<lambda>_. None)(''alice'' \<mapsto> 0),
         next_game_id := 1,
         broadcast_override := True \<rparr>"

definition two_clients :: server_api where
  "two_clients =
     \<lparr> get_connected_clients = [1, 2],
       get_username_from_websocket = (\<lambda>_. None)(1 \<mapsto> ''alice'', 2 \<mapsto> ''bob''),
       get_websocket_from_username = (\<lambda>_. None)(''alice'' \<mapsto> 1, ''bob'' \<mapsto> 2) \<rparr>"

definition plain_assets :: assets where
  "plain_assets =
     \<lparr> lobby_world_json = ''{}'', game_world_json = ''{}'', main_world_json = ''{}'',
       image_url = (\<lambda>text. text) \<rparr>"

text \<open>
  Claim C4, as the code has it. In Zombies.py (and, with the same two guards, FreeForAll.py)
  \<open>add_player\<close> admits the name exactly when the instance is \<open>waiting\<close> or \<open>countdown\<close>
  and the roster is below \<open>max_players\<close>; otherwise nothing changes but one message sent to
  the handle of that name, if it has one. In Squid\_Game.py \<open>add_player\<close> admits the name
  exactly when the instance is \<open>waiting\<close> and the roster is below \<open>max_players\<close>;
  otherwise nothing at all changes and no message is sent.
\<close>

theorem add_player_policy:
  assumes "instances w gid = Some g"
  shows "(joinable g \<and> int (length (players g)) < max_players cfg \<longrightarrow>
            username \<in> set (roster (add_player srv cfg ast gid username w) gid)
            \<and> player_to_game (add_player srv cfg ast gid username w) username = Some gid)
       \<and> (\<not> joinable g \<longrightarrow>
            add_player srv cfg ast gid username w =
              emit (send_to_user srv username
                      ''TELLRAW|PLACERSERVER|This game has already started.'') w)
       \<and> (joinable g \<and> max_players cfg \<le> int (length (players g)) \<longrightarrow>
            add_player srv cfg ast gid username w =
              emit (send_to_user srv username ''TELLRAW|PLACERSERVER|This game is full.'') w)
       \<and> (game_state g = Waiting \<and> int (length (players g)) < sq_max_players scfg \<longrightarrow>
            username \<in> set (roster (squid_add_player srv scfg ast gid username w) gid)
            \<and> player_to_game (squid_add_player srv scfg ast gid username w) username = Some gid)
       \<and> (game_state g \<noteq> Waiting \<or> sq_max_players scfg \<le> int (length (players g)) \<longrightarrow>
            squid_add_player srv scfg ast gid username w = w)"
proof (intro conjI impI)
  assume a: "joinable g \<and> int (length (players g)) < max_players cfg"
  let ?w0 = "emit (map (\<lambda>ws. Send ws (despawn_msg username)) (main_world_websockets srv w)) w"
  have eq: "add_player srv cfg ast gid username w = add_player_claim srv cfg ast gid username ?w0"
    using assms a by (simp add: add_player_def)
  have "instances ?w0 gid = Some g" using assms by simp
  from add_player_claim_roster[OF this]
  show "username \<in> set (roster (add_player srv cfg ast gid username w) gid)"
    by (simp add: eq set_add_mem)
  show "player_to_game (add_player srv cfg ast gid username w) username = Some gid"
    by (simp add: eq add_player_claim_directory)
next
  assume "\<not> joinable g"
  then show "add_player srv cfg ast gid username w =
      emit (send_to_user srv username ''TELLRAW|PLACERSERVER|This game has already started.'') w"
    using assms by (simp add: add_player_def)
next
  assume "joinable g \<and> max_players cfg \<le> int (length (players g))"
  then show "add_player srv cfg ast gid username w =
      emit (send_to_user srv username ''TELLRAW|PLACERSERVER|This game is full.'') w"
    using assms by (simp add: add_player_def)
next
  assume a: "game_state g = Waiting \<and> int (length (players g)) < sq_max_players scfg"
  then show "username \<in> set (roster (squid_add_player srv scfg ast gid username w) gid)"
    using assms
    by (simp add: squid_add_player_def Let_def roster_def upd_game_instances set_add_mem)
  from a show "player_to_game (squid_add_player srv scfg ast gid username w) username = Some gid"
    using assms by (simp add: squid_add_player_def Let_def)
next
  assume "game_state g \<noteq> Waiting \<or> sq_max_players scfg \<le> int (length (players g))"
  then show "squid_add_player srv scfg ast gid username w = w"
    using assms by (auto simp: squid_add_player_def)
qed

text \<open>
  A Squid\_Game instance in \<open>countdown\<close> with one of twelve places taken does not admit a
  second player, and tells nobody.
\<close>

lemma squid_cd_instance:
  "instances squid_countdown_world 0 = Some ((new_instance 0)\<lparr>game_state := Countdown, players := [''alice'']\<rparr>)"
  by (simp add: squid_countdown_world_def initial_world_def)

theorem squid_rejects_in_countdown:
  "state_of squid_countdown_world 0 = Some Countdown
   \<and> int (length (roster squid_countdown_world 0)) < sq_max_players squid_default_config
   \<and> squid_add_player two_clients squid_default_config plain_assets 0 ''bob'' squid_countdown_world
       = squid_countdown_world"
  by (simp add: squid_add_player_def squid_cd_instance state_of_def roster_def
      squid_default_config_def new_instance_def)

definition waiting_world :: world where
  "waiting_world =
     initial_world
       \<lparr> instances := (\<lambda>_. None)(0 \<mapsto> (new_instance 0)\<lparr>players := [''alice''], lobby_players := [''alice'']\<rparr>),
         active_games := [0],
         player_to_game := (\<lambda>_. None)(''alice'' \<mapsto> 0),
         next_game_id := 1,
         broadcast_override := True \<rparr>"

definition playing_world :: world where
  "playing_world =
     initial_world
       \<lparr> instances := (\<lambda>_. None)(0 \<mapsto> (new_instance 0)\<lparr>game_state := Playing, players := [''alice''],
                                              in_game_players := [''alice'']\<rparr>),
         active_games := [0],
         player_to_game := (\<lambda>_. None)(''alice'' \<mapsto> 0),
         next_game_id := 1,
         broadcast_override := True \<rparr>"

lemma waiting_instance:
  "instances waiting_world 0 = Some ((new_instance 0)\<lparr>players := [''alice''], lobby_players := [''alice'']\<rparr>)"
  by (simp add: waiting_world_def initial_world_def)

lemma playing_instance:
  "instances playing_world 0 = Some ((new_instance 0)\<lparr>game_state := Playing, players := [''alice''],
                                              in_game_players := [''alice'']\<rparr>)"
  by (simp add: playing_world_def initial_world_def)

theorem add_player_policy_witness:
  "''bob'' \<in> set (roster (add_player two_clients zombies_default_config plain_assets 0 ''bob''
                         waiting_world) 0)
   \<and> player_to_game (add_player two_clients zombies_default_config plain_assets 0 ''bob''
                       waiting_world) ''bob'' = Some 0
   \<and> add_player two_clients zombies_default_config plain_assets 0 ''bob'' playing_world
       = emit [Send 2 ''TELLRAW|PLACERSERVER|This game has already started.''] playing_world
   \<and> squid_add_player two_clients squid_default_config plain_assets 0 ''bob'' playing_world
       = playing_world"
proof -
  have j: "joinable ((new_instance 0)\<lparr>players := [''alice''], lobby_players := [''alice'']\<rparr>)"
    by (simp add: joinable_def new_instance_def)
  have nj: "\<not> joinable ((new_instance 0)\<lparr>game_state := Playing, players := [''alice''],
                                              in_game_players := [''alice'']\<rparr>)"
    by (simp add: joinable_def)
  have s: "send_to_user two_clients ''bob'' ''TELLRAW|PLACERSERVER|This game has already started.''
            = [Send 2 ''TELLRAW|PLACERSERVER|This game has already started.'']"
    by (simp add: send_to_user_def two_clients_def)
  from add_player_policy[OF waiting_instance, where cfg = zombies_default_config
           and username = "''bob''" and srv = two_clients and ast = plain_assets]
       add_player_policy[OF playing_instance, where cfg = zombies_default_config
           and username = "''bob''" and srv = two_clients and ast = plain_assets
           and scfg = squid_default_config]
       j nj s
  show ?thesis
    by (simp add: zombies_default_config_def new_instance_def)
qed

section \<open>Teardown is guarded\<close>



lemma state_of_broadcast [simp]:
  "state_of (broadcast_to_game_players srv gid' text w) gid = state_of w gid"
  by (simp add: state_of_def)

lemma state_of_upd_game_same:
  "(\<And>g. game_state (f g) = game_state g) \<Longrightarrow> state_of (upd_game gid f w) gid' = state_of w gid'"
  by (cases "instances w gid") (auto simp: state_of_def upd_game_instances)




lemma state_of_release [simp]:
  "state_of (release_players srv cfg ast names w) gid = state_of w gid"
  by (induction names arbitrary: w) (simp_all add: state_of_def)

lemma state_of_unregister [simp]: "state_of (unregister gid' w) gid = state_of w gid"
  by (simp add: unregister_def Let_def state_of_def)

lemma game_state_cancel_current [simp]: "game_state (cancel_current g) = game_state g"
  by (simp add: cancel_current_def split: list.splits)

lemma game_state_cancel_loop [simp]: "game_state (cancel_loop g) = game_state g"
  by (simp add: cancel_loop_def split: option.splits)

lemma state_of_zombie_despawns [simp]:
  "state_of (foldl (\<lambda>w z. broadcast_to_game_players srv gid' (despawn_msg z) w) w zs) gid
     = state_of w gid"
  by (induction zs arbitrary: w) simp_all

lemma state_of_end_game_task [simp]:
  "state_of (end_game_task srv cfg ast gid' victory w) gid = state_of w gid"
  by (simp add: end_game_task_def Let_def state_of_upd_game_same)

lemma state_of_tasks_upd [simp]: "state_of (w\<lparr>end_game_tasks := ts\<rparr>) gid = state_of w gid"
  by (simp add: state_of_def)

lemma state_of_run_end_game_task [simp]:
  "state_of (run_end_game_task srv cfg ast w) gid = state_of w gid"
  by (simp add: run_end_game_task_def split: list.splits prod.splits)



section \<open>Join, leave, teardown\<close>

definition resume_all ::
  "server_api \<Rightarrow> config \<Rightarrow> assets \<Rightarrow> nat \<Rightarrow> (nat \<times> nat) list \<Rightarrow> world \<Rightarrow> world" where
  "resume_all srv cfg ast gid steps w =
     foldl (\<lambda>w (tid, k). countdown_resume srv cfg ast gid tid k w) w steps"

lemma players_set_task [simp]: "players (set_task tid t g) = players g"
  by (simp add: set_task_def)

lemma players_enter [simp]: "players (enter srv ast tid pc g) = players g"
  by (simp add: enter_def)

lemma players_finish [simp]: "players (finish tid g) = players g"
  by (simp add: finish_def)

lemma players_start_game [simp]: "players (start_game g) = players g"
  by (simp add: start_game_def)

lemma players_expire [simp]: "players (expire srv cfg ast tid g) = players g"
  by (simp add: expire_def)

lemma players_proceed [simp]: "players (proceed srv cfg ast tid pc g) = players g"
  by (cases pc) (simp_all add: proceed_def Let_def)

lemma players_cancelled_error [simp]: "players (cancelled_error srv ast tid pc g) = players g"
  by (simp add: cancelled_error_def)

lemma game_state_set_task [simp]: "game_state (set_task tid t g) = game_state g"
  by (simp add: set_task_def)

lemma game_state_enter [simp]: "game_state (enter srv ast tid pc g) = game_state g"
  by (simp add: enter_def)

lemma game_state_finish [simp]: "game_state (finish tid g) = game_state g"
  by (simp add: finish_def)




lemma countdown_resume_fields [simp]:
  "active_games (countdown_resume srv cfg ast gid tid k w) = active_games w"
  "player_to_game (countdown_resume srv cfg ast gid tid k w) = player_to_game w"
  "next_game_id (countdown_resume srv cfg ast gid tid k w) = next_game_id w"
  "broadcast_override (countdown_resume srv cfg ast gid tid k w) = broadcast_override w"
  "end_game_tasks (countdown_resume srv cfg ast gid tid k w) = end_game_tasks w"
  by (simp_all add: countdown_resume_def Let_def split: option.splits)

lemma roster_upd_game_same:
  "(\<And>g. players (f g) = players g) \<Longrightarrow> roster (upd_game gid f w) gid' = roster w gid'"
  by (cases "instances w gid") (auto simp: roster_def upd_game_instances)

lemma roster_countdown_resume [simp]:
  "roster (countdown_resume srv cfg ast gid tid k w) gid' = roster w gid'"
  by (simp add: countdown_resume_def Let_def roster_upd_game_same split: option.splits)



lemma resume_all_fields [simp]:
  "active_games (resume_all srv cfg ast gid steps w) = active_games w"
  "player_to_game (resume_all srv cfg ast gid steps w) = player_to_game w"
  "next_game_id (resume_all srv cfg ast gid steps w) = next_game_id w"
  "broadcast_override (resume_all srv cfg ast gid steps w) = broadcast_override w"
  "end_game_tasks (resume_all srv cfg ast gid steps w) = end_game_tasks w"
  "roster (resume_all srv cfg ast gid steps w) gid' = roster w gid'"
  by (induction steps arbitrary: w; simp add: resume_all_def split: prod.splits)+


lemma roster_dir_upd [simp]: "roster (w\<lparr>player_to_game := d\<rparr>) gid = roster w gid"
  by (simp add: roster_def)

lemma state_of_dir_upd [simp]: "state_of (w\<lparr>player_to_game := d\<rparr>) gid = state_of w gid"
  by (simp add: state_of_def)

lemma roster_tasks_upd [simp]: "roster (w\<lparr>end_game_tasks := ts\<rparr>) gid = roster w gid"
  by (simp add: roster_def)


lemma create_game_instances_other:
  "gid \<noteq> next_game_id w \<Longrightarrow> instances (create_game w) gid = instances w gid"
  by (simp add: create_game_def Let_def)

lemma add_player_claim_fields [simp]:
  "active_games (add_player_claim srv cfg ast gid username w) = active_games w"
  "next_game_id (add_player_claim srv cfg ast gid username w) = next_game_id w"
  "broadcast_override (add_player_claim srv cfg ast gid username w) = broadcast_override w"
  "end_game_tasks (add_player_claim srv cfg ast gid username w) = end_game_tasks w"
  by (simp_all add: add_player_claim_def Let_def)

lemma game_state_start_countdown [simp]: "game_state (start_countdown g) = game_state g"
  by (simp add: start_countdown_def Let_def)

lemma game_state_admit [simp]: "game_state (admit cfg g) = game_state g"
  by (simp add: admit_def)

lemma add_player_claim_state [simp]:
  "state_of (add_player_claim srv cfg ast gid username w) gid' = state_of w gid'"
  by (simp add: add_player_claim_def Let_def state_of_upd_game_same)



lemma end_game_fields [simp]:
  "active_games (end_game gid v w) = active_games w"
  "player_to_game (end_game gid v w) = player_to_game w"
  "next_game_id (end_game gid v w) = next_game_id w"
  "broadcast_override (end_game gid v w) = broadcast_override w"
  by (simp_all add: end_game_def split: option.splits)

lemma roster_end_game [simp]: "roster (end_game gid v w) gid' = roster w gid'"
  by (simp add: end_game_def roster_upd_game_same split: option.splits)



lemma release_players_fields [simp]:
  "instances (release_players srv cfg ast names w) = instances w"
  "active_games (release_players srv cfg ast names w) = active_games w"
  "next_game_id (release_players srv cfg ast names w) = next_game_id w"
  "broadcast_override (release_players srv cfg ast names w) = broadcast_override w"
  "end_game_tasks (release_players srv cfg ast names w) = end_game_tasks w"
  by (induction names arbitrary: w; simp)+


lemma roster_release [simp]: "roster (release_players srv cfg ast names w) gid = roster w gid"
  by (simp add: roster_def)

lemma unregister_fields [simp]:
  "instances (unregister gid w) = instances w"
  "active_games (unregister gid w) = removeAll gid (active_games w)"
  "player_to_game (unregister gid w) = player_to_game w"
  "next_game_id (unregister gid w) = next_game_id w"
  "end_game_tasks (unregister gid w) = end_game_tasks w"
  "broadcast_override (unregister gid w) =
     (if removeAll gid (active_games w) = [] then False else broadcast_override w)"
  by (simp_all add: unregister_def Let_def)

lemma roster_unregister [simp]: "roster (unregister gid' w) gid = roster w gid"
  by (simp add: roster_def)

lemma zombie_despawn_fields [simp]:
  "instances (foldl (\<lambda>w z. broadcast_to_game_players srv gid (despawn_msg z) w) w zs) = instances w"
  "active_games (foldl (\<lambda>w z. broadcast_to_game_players srv gid (despawn_msg z) w) w zs) = active_games w"
  "player_to_game (foldl (\<lambda>w z. broadcast_to_game_players srv gid (despawn_msg z) w) w zs) = player_to_game w"
  "next_game_id (foldl (\<lambda>w z. broadcast_to_game_players srv gid (despawn_msg z) w) w zs) = next_game_id w"
  "broadcast_override (foldl (\<lambda>w z. broadcast_to_game_players srv gid (despawn_msg z) w) w zs) = broadcast_override w"
  "end_game_tasks (foldl (\<lambda>w z. broadcast_to_game_players srv gid (despawn_msg z) w) w zs) = end_game_tasks w"
  by (induction zs arbitrary: w; simp)+

lemma roster_zombie_despawn [simp]:
  "roster (foldl (\<lambda>w z. broadcast_to_game_players srv gid' (despawn_msg z) w) w zs) gid = roster w gid"
  by (simp add: roster_def)

lemma players_cancel_loop [simp]: "players (cancel_loop g) = players g"
  by (simp add: cancel_loop_def split: option.splits)




section \<open>The directory invariant\<close>

text \<open>
  The \<open>SYNC_REQ\<close> branch of \<open>on_message\<close> removes a ghost session. The worlds the plugin
  can reach are generated by its handlers and tasks, each taken as one step.
\<close>

definition on_sync_req :: "server_api \<Rightarrow> config \<Rightarrow> username \<Rightarrow> world \<Rightarrow> world" where
  "on_sync_req srv cfg username w =
     (case player_to_game w username of
        None \<Rightarrow> w
      | Some old_game_id \<Rightarrow>
          (let w1 = emit [Log ''ZombiesGame: Found and removed ghost session.''] w;
               w2 = (if old_game_id \<in> set (active_games w1)
                     then remove_player srv cfg old_game_id username w1 else w1)
           in w2\<lparr>player_to_game := (player_to_game w2)(username := None)\<rparr>))"

inductive reachable :: "config \<Rightarrow> assets \<Rightarrow> world \<Rightarrow> bool" for cfg :: config and ast :: assets where
  start: "reachable cfg ast initial_world"
| join: "reachable cfg ast w \<Longrightarrow> reachable cfg ast (join_clicked srv cfg ast username w)"
| leave: "reachable cfg ast w \<Longrightarrow> reachable cfg ast (on_disconnect srv cfg ws w)"
| sync: "reachable cfg ast w \<Longrightarrow> reachable cfg ast (on_sync_req srv cfg username w)"
| resume: "reachable cfg ast w \<Longrightarrow> reachable cfg ast (countdown_resume srv cfg ast gid tid k w)"
| over: "reachable cfg ast w \<Longrightarrow> gid \<in> set (active_games w) \<Longrightarrow>
         reachable cfg ast (end_game gid victory w)"
| teardown: "reachable cfg ast w \<Longrightarrow> reachable cfg ast (run_end_game_task srv cfg ast w)"


























section \<open>Worked examples\<close>










section \<open>Cancelling the countdown\<close>

definition awaiting_expiry :: "cd_pc \<Rightarrow> bool" where
  "awaiting_expiry pc =
     (case pc of AtNotify i \<Rightarrow> True | AtSleep i \<Rightarrow> True | AtHide \<Rightarrow> True | _ \<Rightarrow> False)"

definition current_task :: "world \<Rightarrow> nat \<Rightarrow> cd_task option" where
  "current_task w gid =
     (case instances w gid of
        None \<Rightarrow> None
      | Some g \<Rightarrow> (case countdown_tasks g of [] \<Rightarrow> None | ts \<Rightarrow> Some (last ts)))"

definition current_tid :: "world \<Rightarrow> nat \<Rightarrow> nat" where
  "current_tid w gid =
     (case instances w gid of None \<Rightarrow> 0 | Some g \<Rightarrow> length (countdown_tasks g) - 1)"

lemma instances_end_game:
  "instances (end_game gid v w) gid' =
     (if gid' = gid then map_option (\<lambda>g. g\<lparr>game_state := Ended\<rparr>) (instances w gid)
      else instances w gid')"
  by (cases "instances w gid") (auto simp: end_game_def upd_game_instances)

lemma instances_tasks_upd [simp]: "instances (w\<lparr>end_game_tasks := ts\<rparr>) = instances w"
  by simp

lemma remove_player_instance:
  assumes "instances w gid = Some g"
  shows "\<exists>g'. instances (remove_player srv cfg gid u w) gid = Some g'
            \<and> players g' = discard u (players g)
            \<and> (game_state g' = game_state g \<or> game_state g' = Ended)
            \<and> countdown_tasks g' =
                 (if game_state g = Countdown \<and> int (length (discard u (players g))) < min_players cfg
                  then countdown_tasks (cancel_current g) else countdown_tasks g)"
proof -
  define g1 where "g1 = g\<lparr>players := discard u (players g), lobby_players := discard u (lobby_players g),
              in_game_players := discard u (in_game_players g)\<rparr>"
  define w1 where "w1 = upd_game gid
      (\<lambda>g. g\<lparr>players := discard u (players g), lobby_players := discard u (lobby_players g),
              in_game_players := discard u (in_game_players g)\<rparr>) w"
  define w2 where "w2 = w1\<lparr>player_to_game := (player_to_game w1)(u := None)\<rparr>"
  define w3 where "w3 = broadcast_to_game_players srv gid (despawn_msg u) w2"
  define w4 where "w4 = broadcast_to_game_players srv gid
      (leave_msg cfg u (length (roster w3 gid))) w3"
  define c where "c = (state_of w4 gid = Some Countdown
      \<and> int (length (roster w4 gid)) < min_players cfg)"
  define w5 where "w5 = (if c then upd_game gid cancel_current w4 else w4)"
  define g5 where "g5 = (if c then cancel_current g1 else g1)"
  have i1: "instances w1 gid = Some g1"
    using assms by (simp add: w1_def g1_def upd_game_instances)
  have i4: "instances w4 gid = Some g1"
    using i1 by (simp add: w4_def w3_def w2_def)
  have c: "c = (game_state g = Countdown \<and> int (length (discard u (players g))) < min_players cfg)"
    using i4 by (simp add: c_def state_of_def roster_def g1_def)
  have i5: "instances w5 gid = Some g5"
    using i4 by (simp add: w5_def g5_def upd_game_instances)
  have eq: "remove_player srv cfg gid u w =
      (if roster w5 gid = [] \<and> state_of w5 gid \<noteq> Some Ended then end_game gid False w5 else w5)"
    unfolding remove_player_def Let_def w5_def c_def w4_def w3_def w2_def w1_def ..
  have p5: "players g5 = discard u (players g)" "game_state g5 = game_state g"
     "countdown_tasks g5 = (if c then countdown_tasks (cancel_current g) else countdown_tasks g)"
    by (simp_all add: g5_def g1_def cancel_current_def split: list.splits)
  show ?thesis
  proof (cases "roster w5 gid = [] \<and> state_of w5 gid \<noteq> Some Ended")
    case True
    then have "remove_player srv cfg gid u w = end_game gid False w5"
      unfolding eq by (rule if_P)
    then have "instances (remove_player srv cfg gid u w) gid = Some (g5\<lparr>game_state := Ended\<rparr>)"
      using i5 by (simp add: instances_end_game)
    then show ?thesis using p5 c by simp
  next
    case False
    then have "remove_player srv cfg gid u w = w5"
      unfolding eq by (rule if_not_P)
    then have "instances (remove_player srv cfg gid u w) gid = Some g5"
      using i5 by simp
    then show ?thesis using p5 c by simp
  qed
qed

lemma countdown_resume_cancelled:
  assumes "instances w gid = Some g" and "tid < length (countdown_tasks g)"
    and "\<not> task_done (countdown_tasks g ! tid)" and "cancel_requested (countdown_tasks g ! tid)"
  shows "instances (countdown_resume srv cfg ast gid tid k w) gid
           = Some (cancelled_error srv ast tid (cd_pc (countdown_tasks g ! tid)) g)"
    and "outbox (countdown_resume srv cfg ast gid tid k w)
           = outbox w @ take k (pending (countdown_tasks g ! tid))"
  using assms by (simp_all add: countdown_resume_def Let_def upd_game_instances)

lemma countdown_resume_proceeds:
  assumes "instances w gid = Some g" and "tid < length (countdown_tasks g)"
    and "\<not> task_done (countdown_tasks g ! tid)" and "\<not> cancel_requested (countdown_tasks g ! tid)"
  shows "instances (countdown_resume srv cfg ast gid tid k w) gid
           = Some (proceed srv cfg ast tid (cd_pc (countdown_tasks g ! tid)) g)"
    and "outbox (countdown_resume srv cfg ast gid tid k w)
           = outbox w @ pending (countdown_tasks g ! tid)"
  using assms by (simp_all add: countdown_resume_def Let_def upd_game_instances)

lemma countdown_resume_done:
  assumes "instances w gid = Some g" and "tid < length (countdown_tasks g)"
    and "task_done (countdown_tasks g ! tid)"
  shows "countdown_resume srv cfg ast gid tid k w = w"
  using assms by (simp add: countdown_resume_def Let_def)

lemma awaiting_expiry_cases:
  "awaiting_expiry pc \<Longrightarrow> pc \<noteq> Done \<and> pc \<noteq> NotStarted \<and> \<not> in_handler pc"
  by (cases pc) (simp_all add: awaiting_expiry_def in_handler_def)

lemma cancel_current_snoc:
  assumes "countdown_tasks g = ts @ [t]"
  shows "countdown_tasks (cancel_current g) = ts @ [task_cancel t]"
proof (cases "countdown_tasks g")
  case Nil
  with assms show ?thesis by simp
next
  case (Cons a l)
  then have "countdown_tasks (cancel_current g) = butlast (a # l) @ [task_cancel (last (a # l))]"
    by (simp add: cancel_current_def)
  moreover have "a # l = ts @ [t]" using Cons assms by simp
  ultimately show ?thesis by (simp only: butlast_snoc last_snoc)
qed

text \<open>
  Claim C6. The instance is in \<open>countdown\<close>, its countdown task is suspended in any await
  of the loop or in the broadcast after it, and a leave brings the roster below
  \<open>min_players\<close>. Then \<open>remove_player\<close> cancels the task; wherever the cancellation lands
  (whatever the await, after any number \<open>k\<close> of the sends of the interrupted broadcast),
  the next resumption puts the instance in \<open>waiting\<close>, the two that follow send
  \<open>Countdown cancelled.\<close> and \<open>HIDE_IMAGE\<close> to the remaining roster and end the task, the
  instance is never \<open>playing\<close> on the way, and the finished task does nothing more.
\<close>

theorem cancelled_countdown_returns_to_waiting:
  assumes inst: "instances w gid = Some g"
    and st: "game_state g = Countdown"
    and tasks: "countdown_tasks g = ts @ [t]"
    and pc: "awaiting_expiry (cd_pc t)"
    and low: "int (length (discard u (players g))) < min_players cfg"
    and w1: "w1 = remove_player srv cfg gid u w"
    and w2: "w2 = countdown_resume srv cfg ast gid (length ts) k w1"
    and w3: "w3 = countdown_resume srv cfg ast gid (length ts) k' w2"
    and w4: "w4 = countdown_resume srv cfg ast gid (length ts) k'' w3"
  shows "state_of w1 gid \<noteq> Some Playing
       \<and> state_of w2 gid = Some Waiting
       \<and> state_of w3 gid = Some Waiting
       \<and> state_of w4 gid = Some Waiting
       \<and> roster w4 gid = discard u (players g)
       \<and> outbox w4 = outbox w1 @ take k (pending t)
           @ broadcast_msgs srv (discard u (players g)) ''TELLRAW|PLACERSERVER|Countdown cancelled.''
           @ broadcast_msgs srv (discard u (players g)) ''HIDE_IMAGE|PLACERSERVER|''
       \<and> countdown_resume srv cfg ast gid (length ts) j w4 = w4"
proof -
  let ?tid = "length ts"
  note pcs = awaiting_expiry_cases[OF pc]
  have nd: "\<not> task_done t" using pcs by (simp add: task_done_def)
  have cc: "countdown_tasks (cancel_current g) = ts @ [t\<lparr>cancel_requested := True\<rparr>]"
    using cancel_current_snoc[OF tasks] nd by (simp add: task_cancel_def)
  from remove_player_instance[OF inst, of srv cfg u] st low cc
  obtain g1 where g1: "instances w1 gid = Some g1" "players g1 = discard u (players g)"
      "game_state g1 = Countdown \<or> game_state g1 = Ended"
      "countdown_tasks g1 = ts @ [t\<lparr>cancel_requested := True\<rparr>]"
    unfolding w1 by auto
  have t1: "countdown_tasks g1 ! ?tid = t\<lparr>cancel_requested := True\<rparr>" "?tid < length (countdown_tasks g1)"
    using g1(4) by simp_all
  have nd1: "\<not> task_done (countdown_tasks g1 ! ?tid)" "cancel_requested (countdown_tasks g1 ! ?tid)"
    using nd t1 by (simp_all add: task_done_def)
  define h where "h = \<lparr>cd_pc = InHandlerMsg, cancel_requested = False,
      pending = broadcast_msgs srv (discard u (players g)) ''TELLRAW|PLACERSERVER|Countdown cancelled.''\<rparr>"
  define g2 where "g2 = g1\<lparr>game_state := Waiting, countdown_tasks := ts @ [h]\<rparr>"
  have ce: "cancelled_error srv ast ?tid (cd_pc t) g1 = g2"
    using pcs g1(2,4)
    by (simp add: cancelled_error_def enter_def set_task_def await_msgs_def g2_def h_def)
  have i2: "instances w2 gid = Some g2" and o2: "outbox w2 = outbox w1 @ take k (pending t)"
    using countdown_resume_cancelled[OF g1(1) t1(2) nd1, of srv cfg ast k] t1(1) ce
    by (simp_all add: w2)
  have t2: "countdown_tasks g2 ! ?tid = h" "?tid < length (countdown_tasks g2)"
    by (simp_all add: g2_def)
  have nd2: "\<not> task_done (countdown_tasks g2 ! ?tid)" "\<not> cancel_requested (countdown_tasks g2 ! ?tid)"
    by (simp_all add: t2 h_def task_done_def)
  define h' where "h' = \<lparr>cd_pc = InHandlerHide, cancel_requested = False,
      pending = broadcast_msgs srv (discard u (players g)) ''HIDE_IMAGE|PLACERSERVER|''\<rparr>"
  define g3 where "g3 = g2\<lparr>countdown_tasks := ts @ [h']\<rparr>"
  have pr: "proceed srv cfg ast ?tid (cd_pc h) g2 = g3"
    using g1(2)
    by (simp add: proceed_def h_def enter_def set_task_def await_msgs_def g3_def g2_def h'_def)
  have i3: "instances w3 gid = Some g3"
    and o3: "outbox w3 = outbox w2 @ broadcast_msgs srv (discard u (players g))
                ''TELLRAW|PLACERSERVER|Countdown cancelled.''"
    using countdown_resume_proceeds[OF i2 t2(2) nd2, of srv cfg ast k'] t2(1) pr
    by (simp_all add: w3 h_def)
  have t3: "countdown_tasks g3 ! ?tid = h'" "?tid < length (countdown_tasks g3)"
    by (simp_all add: g3_def)
  have nd3: "\<not> task_done (countdown_tasks g3 ! ?tid)" "\<not> cancel_requested (countdown_tasks g3 ! ?tid)"
    by (simp_all add: t3 h'_def task_done_def)
  define g4 where "g4 = g3\<lparr>countdown_tasks := ts @ [\<lparr>cd_pc = Done, cancel_requested = False, pending = []\<rparr>]\<rparr>"
  have pr': "proceed srv cfg ast ?tid (cd_pc h') g3 = g4"
    by (simp add: proceed_def h'_def finish_def set_task_def g4_def g3_def)
  have i4: "instances w4 gid = Some g4"
    and o4: "outbox w4 = outbox w3 @ broadcast_msgs srv (discard u (players g))
                ''HIDE_IMAGE|PLACERSERVER|''"
    using countdown_resume_proceeds[OF i3 t3(2) nd3, of srv cfg ast k''] t3(1) pr'
    by (simp_all add: w4 h'_def)
  have d4: "task_done (countdown_tasks g4 ! ?tid)" "?tid < length (countdown_tasks g4)"
    by (simp_all add: g4_def task_done_def)
  have s1: "state_of w1 gid \<noteq> Some Playing"
    using g1(1,3) by (auto simp: state_of_def)
  have s2: "state_of w2 gid = Some Waiting" using i2 by (simp add: state_of_def g2_def)
  have s3: "state_of w3 gid = Some Waiting" using i3 by (simp add: state_of_def g3_def g2_def)
  have s4: "state_of w4 gid = Some Waiting"
    using i4 by (simp add: state_of_def g4_def g3_def g2_def)
  have r4: "roster w4 gid = discard u (players g)"
    using i4 g1(2) by (simp add: roster_def g4_def g3_def g2_def)
  have stays: "countdown_resume srv cfg ast gid ?tid j w4 = w4"
    by (rule countdown_resume_done[OF i4 d4(2) d4(1)])
  from s1 s2 s3 s4 r4 o2 o3 o4 stays show ?thesis by simp
qed

definition countdown_world :: world where
  "countdown_world =
     countdown_resume two_clients zombies_default_config plain_assets 0 0 0
       (join_clicked two_clients zombies_default_config plain_assets ''bob''
          (join_clicked two_clients zombies_default_config plain_assets ''alice'' initial_world))"

definition countdown_game :: game_instance where
  "countdown_game =
     \<lparr> game_id = 0, game_state = Countdown, players = [''alice'', ''bob''],
       lobby_players = [''alice'', ''bob''], in_game_players = [], active_zombies = [],
       countdown_tasks =
         [\<lparr> cd_pc = AtNotify 40, cancel_requested = False,
            pending = [Send 1 ''TELLRAW|PLACERSERVER|Game starting in 40...'',
                       Send 2 ''TELLRAW|PLACERSERVER|Game starting in 40...''] \<rparr>],
       game_loop_task = None \<rparr>"

lemma countdown_world_instance: "instances countdown_world 0 = Some countdown_game"
  unfolding countdown_world_def countdown_game_def by code_simp

definition bob_left :: world where
  "bob_left = remove_player two_clients zombies_default_config 0 ''bob'' countdown_world"

definition bob_left_resumed :: world where
  "bob_left_resumed = countdown_resume two_clients zombies_default_config plain_assets 0 0 1 bob_left"

theorem cancelled_countdown_witness:
  "state_of bob_left 0 \<noteq> Some Playing
   \<and> state_of bob_left_resumed 0 = Some Waiting
   \<and> roster (countdown_resume two_clients zombies_default_config plain_assets 0 0 0
        (countdown_resume two_clients zombies_default_config plain_assets 0 0 0 bob_left_resumed)) 0
       = [''alice'']"
proof -
  have h: "game_state countdown_game = Countdown"
    "countdown_tasks countdown_game =
       [] @ [\<lparr> cd_pc = AtNotify 40, cancel_requested = False,
            pending = [Send 1 ''TELLRAW|PLACERSERVER|Game starting in 40...'',
                       Send 2 ''TELLRAW|PLACERSERVER|Game starting in 40...''] \<rparr>]"
    "awaiting_expiry (cd_pc \<lparr> cd_pc = AtNotify 40, cancel_requested = False,
            pending = [Send 1 ''TELLRAW|PLACERSERVER|Game starting in 40...'',
                       Send 2 ''TELLRAW|PLACERSERVER|Game starting in 40...''] \<rparr>)"
    "int (length (discard ''bob'' (players countdown_game))) < min_players zombies_default_config"
    by (simp_all add: countdown_game_def awaiting_expiry_def discard_def zombies_default_config_def)
  from cancelled_countdown_returns_to_waiting[OF countdown_world_instance h,
      where ?w1.0 = bob_left and ?w2.0 = bob_left_resumed and srv = two_clients and ast = plain_assets
        and k = 1 and k' = 0 and k'' = 0, OF _ _ refl refl]
  show ?thesis
    by (simp add: bob_left_def bob_left_resumed_def countdown_game_def discard_def)
qed

section \<open>How long the countdown lasts\<close>

text \<open>The one-second sleeps a task suspended in the loop still has to await.\<close>

definition remaining_seconds :: "cd_pc \<Rightarrow> int" where
  "remaining_seconds pc = (case pc of AtNotify i \<Rightarrow> i | AtSleep i \<Rightarrow> i | _ \<Rightarrow> 0)"

definition task_pc :: "world \<Rightarrow> nat \<Rightarrow> nat \<Rightarrow> cd_pc" where
  "task_pc w gid tid =
     (case instances w gid of
        None \<Rightarrow> Done
      | Some g \<Rightarrow> if tid < length (countdown_tasks g) then cd_pc (countdown_tasks g ! tid) else Done)"

definition full_squid_game :: game_instance where
  "full_squid_game =
     (new_instance 0)\<lparr>players := [''p1'', ''p2'', ''p3'', ''p4'', ''p5'', ''p6'',
                                  ''p7'', ''p8'', ''p9'', ''p10'', ''p11'', ''p12'']\<rparr>"

lemma remaining_enter_iter: "remaining_seconds (enter_iter i) = max 0 i"
  by (simp add: remaining_seconds_def enter_iter_def)

lemma cd_pc_enter:
  "tid < length (countdown_tasks g) \<Longrightarrow> cd_pc (countdown_tasks (enter srv ast tid pc g) ! tid) = pc"
  by (simp add: enter_def set_task_def)

lemma length_tasks_enter [simp]:
  "length (countdown_tasks (enter srv ast tid pc g)) = length (countdown_tasks g)"
  by (simp add: enter_def set_task_def)

lemma task_pc_resume:
  assumes "instances w gid = Some g" and "tid < length (countdown_tasks g)"
    and "\<not> cancel_requested (countdown_tasks g ! tid)" and "cd_pc (countdown_tasks g ! tid) = pc"
    and "pc = NotStarted \<or> pc = AtNotify i \<or> pc = AtSleep i"
  shows "task_pc (countdown_resume srv cfg ast gid tid k w) gid tid =
           (case pc of NotStarted \<Rightarrow> enter_iter (wait_time cfg g)
            | AtNotify i \<Rightarrow> AtSleep i | AtSleep i \<Rightarrow> enter_iter (i - 1) | _ \<Rightarrow> pc)"
proof -
  have nd: "\<not> task_done (countdown_tasks g ! tid)"
    using assms(4,5) by (auto simp: task_done_def)
  from countdown_resume_proceeds(1)[OF assms(1,2) nd assms(3), of srv cfg ast k]
  have i: "instances (countdown_resume srv cfg ast gid tid k w) gid
           = Some (proceed srv cfg ast tid pc g)"
    using assms(4) by simp
  have l: "tid < length (countdown_tasks (proceed srv cfg ast tid pc g))"
    using assms(2,5) by (auto simp: proceed_def Let_def)
  show ?thesis
    using assms(2,5) i l
    by (auto simp: task_pc_def proceed_def Let_def cd_pc_enter wait_time_def)
qed

text \<open>
  Claim C5, as the code has it. When a countdown task of Zombies.py (FreeForAll.py's
  \<open>_countdown\<close> computes \<open>wait_time\<close> by the same expression) takes its first step, the
  instance enters \<open>countdown\<close> and the task is suspended in iteration \<open>wait_time\<close> of the
  loop, with that many one-second sleeps ahead: \<open>countdown_full\<close> when the roster is at
  \<open>max_players\<close>, \<open>countdown_normal\<close> otherwise. Under both default configurations the
  full value is strictly shorter. Squid\_Game.py counts down from \<open>countdown_normal\<close>
  whatever the roster.
\<close>

theorem countdown_duration:
  assumes "instances w gid = Some g" and "tid < length (countdown_tasks g)"
    and "cd_pc (countdown_tasks g ! tid) = NotStarted"
    and "\<not> cancel_requested (countdown_tasks g ! tid)"
  shows "state_of (countdown_resume srv cfg ast gid tid k w) gid = Some Countdown
       \<and> remaining_seconds (task_pc (countdown_resume srv cfg ast gid tid k w) gid tid)
           = max 0 (if int (length (players g)) = max_players cfg then countdown_full cfg
                    else countdown_normal cfg)
       \<and> countdown_full zombies_default_config < countdown_normal zombies_default_config
       \<and> countdown_full ffa_default_config < countdown_normal ffa_default_config
       \<and> squid_wait_time scfg g = sq_countdown_normal scfg"
proof -
  have nd: "\<not> task_done (countdown_tasks g ! tid)"
    using assms(3) by (simp add: task_done_def)
  from countdown_resume_proceeds(1)[OF assms(1,2) nd assms(4), of srv cfg ast k]
  have "state_of (countdown_resume srv cfg ast gid tid k w) gid = Some Countdown"
    using assms(3) by (simp add: state_of_def proceed_def Let_def)
  moreover have "task_pc (countdown_resume srv cfg ast gid tid k w) gid tid
                 = enter_iter (wait_time cfg g)"
    using task_pc_resume[OF assms(1,2,4,3), of 0 srv cfg ast k] by simp
  ultimately show ?thesis
    by (simp add: remaining_enter_iter wait_time_def zombies_default_config_def
        ffa_default_config_def squid_wait_time_def)
qed

text \<open>
  With the configuration Squid\_Game.py ships, a full roster of twelve waits the same 45
  seconds as an empty one.
\<close>

theorem squid_full_roster_not_shorter:
  "int (length (players full_squid_game)) = sq_max_players squid_default_config
   \<and> squid_wait_time squid_default_config full_squid_game = 45
   \<and> squid_wait_time squid_default_config (new_instance 0) = 45"
  by (simp add: full_squid_game_def squid_default_config_def squid_wait_time_def)

definition duo_config :: config where
  "duo_config =
     \<lparr> min_players = 2, max_players = 2, countdown_normal = 40, countdown_full = 10,
       lobby_x = 461, lobby_y = 1104 \<rparr>"

definition pending_game :: game_instance where
  "pending_game =
     (new_instance 0)\<lparr>players := [''alice'', ''bob''], lobby_players := [''alice'', ''bob''],
        countdown_tasks := [\<lparr>cd_pc = NotStarted, cancel_requested = False, pending = []\<rparr>]\<rparr>"

definition pending_world :: world where
  "pending_world =
     initial_world
       \<lparr> instances := (\<lambda>_. None)(0 \<mapsto> pending_game),
         active_games := [0],
         player_to_game := (\<lambda>_. None)(''alice'' \<mapsto> 0, ''bob'' \<mapsto> 0),
         next_game_id := 1,
         broadcast_override := True \<rparr>"

theorem countdown_duration_witness:
  "state_of (countdown_resume two_clients zombies_default_config plain_assets 0 0 0 pending_world) 0
     = Some Countdown
   \<and> remaining_seconds
        (task_pc (countdown_resume two_clients zombies_default_config plain_assets 0 0 0
                    pending_world) 0 0) = 40
   \<and> remaining_seconds
        (task_pc (countdown_resume two_clients duo_config plain_assets 0 0 0 pending_world) 0 0)
       = 10"
proof -
  have h: "instances pending_world 0 = Some pending_game"
    "0 < length (countdown_tasks pending_game)"
    "cd_pc (countdown_tasks pending_game ! 0) = NotStarted"
    "\<not> cancel_requested (countdown_tasks pending_game ! 0)"
    by (simp_all add: pending_world_def pending_game_def initial_world_def)
  from countdown_duration[OF h, of two_clients zombies_default_config plain_assets 0]
       countdown_duration[OF h, of two_clients duo_config plain_assets 0]
  show ?thesis
    by (simp add: pending_game_def zombies_default_config_def duo_config_def)
qed

section \<open>The simulation loop\<close>

text \<open>
  \<open>game_loop\<close> of Zombies.py and FreeForAll.py:
  \<^verbatim>\<open>while self.game_state == "playing":
      try: <tick body>
      except asyncio.CancelledError: break
      except Exception as e: self.server_api.log(...)\<close>
  The tick body is content of the game and a parameter here: run in a world it ends
  normally, returns from the coroutine (after calling \<open>end_game\<close>), raises an exception
  with a text, or is cancelled at one of its awaits; in each case it leaves a world
  behind. The loop may run for ever, so it runs on fuel: \<open>None\<close> is a loop still
  running when the fuel is used up. \<open>loop_trace\<close> lists the outcomes of the ticks run.
\<close>

datatype tick_outcome = TickCompleted | TickReturned | TickRaised string | TickCancelled

definition loop_error :: "nat \<Rightarrow> string \<Rightarrow> effect" where
  "loop_error gid e =
     Log (''ZombiesGame (ID '' @ str_nat gid @ ''): Error in game loop: '' @ e)"

fun game_loop ::
  "nat \<Rightarrow> (world \<Rightarrow> tick_outcome \<times> world) \<Rightarrow> nat \<Rightarrow> world \<Rightarrow> world option" where
  "game_loop 0 tick gid w = None"
| "game_loop (Suc n) tick gid w =
     (if state_of w gid \<noteq> Some Playing then Some w
      else (case tick w of
              (TickCompleted, w') \<Rightarrow> game_loop n tick gid w'
            | (TickReturned, w') \<Rightarrow> Some w'
            | (TickRaised e, w') \<Rightarrow> game_loop n tick gid (emit [loop_error gid e] w')
            | (TickCancelled, w') \<Rightarrow> Some w'))"

fun loop_trace ::
  "nat \<Rightarrow> (world \<Rightarrow> tick_outcome \<times> world) \<Rightarrow> nat \<Rightarrow> world \<Rightarrow> tick_outcome list" where
  "loop_trace 0 tick gid w = []"
| "loop_trace (Suc n) tick gid w =
     (if state_of w gid \<noteq> Some Playing then []
      else (case tick w of
              (TickCompleted, w') \<Rightarrow> TickCompleted # loop_trace n tick gid w'
            | (TickReturned, w') \<Rightarrow> [TickReturned]
            | (TickRaised e, w') \<Rightarrow>
                TickRaised e # loop_trace n tick gid (emit [loop_error gid e] w')
            | (TickCancelled, w') \<Rightarrow> [TickCancelled]))"

lemma trace_cancel_last:
  "loop_trace n tick gid w = xs @ TickCancelled # ys \<Longrightarrow> ys = []"
proof (induction n arbitrary: w xs)
  case 0
  then show ?case by simp
next
  case (Suc n)
  show ?case
  proof (cases "state_of w gid \<noteq> Some Playing")
    case True
    with Suc.prems show ?thesis by simp
  next
    case False
    obtain o' w' where t: "tick w = (o', w')" by (cases "tick w")
    show ?thesis
    proof (cases o')
      case TickCompleted
      with Suc.prems False t obtain xs' where "xs = TickCompleted # xs'"
        "loop_trace n tick gid w' = xs' @ TickCancelled # ys"
        by (cases xs) auto
      then show ?thesis using Suc.IH by blast
    next
      case TickReturned
      with Suc.prems False t show ?thesis by (cases xs) auto
    next
      case (TickRaised e)
      with Suc.prems False t obtain xs' where "xs = TickRaised e # xs'"
        "loop_trace n tick gid (emit [loop_error gid e] w') = xs' @ TickCancelled # ys"
        by (cases xs) auto
      then show ?thesis using Suc.IH by blast
    next
      case TickCancelled
      with Suc.prems False t show ?thesis by (cases xs) auto
    qed
  qed
qed

lemma always_raising_runs_on:
  assumes "\<And>w. state_of w gid = Some Playing \<Longrightarrow>
             fst (tick w) = TickRaised e \<and> state_of (snd (tick w)) gid = Some Playing"
    and "state_of w gid = Some Playing"
  shows "game_loop n tick gid w = None \<and> loop_trace n tick gid w = replicate n (TickRaised e)"
  using assms(2)
proof (induction n arbitrary: w)
  case 0
  then show ?case by simp
next
  case (Suc n)
  obtain w' where t: "tick w = (TickRaised e, w')" and p: "state_of w' gid = Some Playing"
    using assms(1)[OF Suc.prems] by (cases "tick w") auto
  have "state_of (emit [loop_error gid e] w') gid = Some Playing"
    using p by simp
  from Suc.IH[OF this] show ?case
    using Suc.prems t by simp
qed

text \<open>
  Claim C8. While the instance is \<open>playing\<close>: a tick whose body raises is logged and the
  loop goes on with the next tick from the world the failed tick left; a tick cancelled
  at an await ends the loop at once, in the world it left, with nothing logged, and in
  no run is any tick executed after a cancelled one; and a body that raises on every tick
  without leaving \<open>playing\<close> keeps the loop running for as many ticks as it is given, never
  returning.
\<close>

theorem game_loop_failure_policy:
  assumes "state_of w gid = Some Playing"
  shows "(tick w = (TickRaised e, w') \<longrightarrow>
            game_loop (Suc n) tick gid w = game_loop n tick gid (emit [loop_error gid e] w')
            \<and> loop_trace (Suc n) tick gid w
                = TickRaised e # loop_trace n tick gid (emit [loop_error gid e] w'))
       \<and> (tick w = (TickCancelled, w') \<longrightarrow>
            game_loop (Suc n) tick gid w = Some w' \<and> loop_trace (Suc n) tick gid w = [TickCancelled])
       \<and> (\<forall>m xs ys. loop_trace m tick gid w = xs @ TickCancelled # ys \<longrightarrow> ys = [])
       \<and> ((\<forall>v. state_of v gid = Some Playing \<longrightarrow>
               fst (tick v) = TickRaised e \<and> state_of (snd (tick v)) gid = Some Playing) \<longrightarrow>
            game_loop n tick gid w = None \<and> loop_trace n tick gid w = replicate n (TickRaised e))"
proof (intro conjI impI allI)
  assume "tick w = (TickRaised e, w')"
  then show "game_loop (Suc n) tick gid w = game_loop n tick gid (emit [loop_error gid e] w')"
    and "loop_trace (Suc n) tick gid w
          = TickRaised e # loop_trace n tick gid (emit [loop_error gid e] w')"
    using assms by simp_all
next
  assume "tick w = (TickCancelled, w')"
  then show "game_loop (Suc n) tick gid w = Some w'"
    and "loop_trace (Suc n) tick gid w = [TickCancelled]"
    using assms by simp_all
next
  fix m xs ys assume "loop_trace m tick gid w = xs @ TickCancelled # ys"
  then show "ys = []" by (rule trace_cancel_last)
next
  assume a: "\<forall>v. state_of v gid = Some Playing \<longrightarrow>
               fst (tick v) = TickRaised e \<and> state_of (snd (tick v)) gid = Some Playing"
  then have "\<And>v. state_of v gid = Some Playing \<Longrightarrow>
               fst (tick v) = TickRaised e \<and> state_of (snd (tick v)) gid = Some Playing"
    by blast
  from always_raising_runs_on[OF this assms, where n = n]
  show "game_loop n tick gid w = None" and "loop_trace n tick gid w = replicate n (TickRaised e)"
    by simp_all
qed

definition failing_tick :: "world \<Rightarrow> tick_outcome \<times> world" where
  "failing_tick w = (TickRaised ''KeyError'', w)"

definition cancelled_tick :: "world \<Rightarrow> tick_outcome \<times> world" where
  "cancelled_tick w = (TickCancelled, w)"

theorem game_loop_failure_policy_witness:
  "game_loop 3 failing_tick 0 playing_world = None
   \<and> loop_trace 3 failing_tick 0 playing_world
       = [TickRaised ''KeyError'', TickRaised ''KeyError'', TickRaised ''KeyError'']
   \<and> game_loop 3 cancelled_tick 0 playing_world = Some playing_world
   \<and> loop_trace 3 cancelled_tick 0 playing_world = [TickCancelled]"
proof -
  have p: "state_of playing_world 0 = Some Playing"
    by (simp add: state_of_def playing_instance)
  have f: "\<forall>v. state_of v 0 = Some Playing \<longrightarrow>
               fst (failing_tick v) = TickRaised ''KeyError''
               \<and> state_of (snd (failing_tick v)) 0 = Some Playing"
    by (simp add: failing_tick_def)
  have c: "cancelled_tick playing_world = (TickCancelled, playing_world)"
    by (simp add: cancelled_tick_def)
  from game_loop_failure_policy[OF p, where tick = failing_tick and e = "''KeyError''"
      and w' = playing_world and n = 3] f
  have a: "game_loop 3 failing_tick 0 playing_world = None
       \<and> loop_trace 3 failing_tick 0 playing_world = replicate 3 (TickRaised ''KeyError'')"
    by blast
  from game_loop_failure_policy[OF p, where tick = cancelled_tick and e = "''KeyError''"
      and w' = playing_world and n = 2] c
  have b: "game_loop (Suc 2) cancelled_tick 0 playing_world = Some playing_world
       \<and> loop_trace (Suc 2) cancelled_tick 0 playing_world = [TickCancelled]"
    by blast
  have "Suc 2 = 3" by simp
  with a b show ?thesis by (simp add: numeral_3_eq_3)
qed

end
